theory Spec2Isabelle
  imports Complex_Main
begin

section \<open>Numbers\<close>

text \<open>
  A JavaScript number is an IEEE binary64 value: an arithmetic operation returns the
  exact result rounded to a nearest representable number. Numbers are \<open>real\<close> here
  (counts and rounded values \<open>int\<close>), and the rounding is a parameter \<open>fl\<close> of the
  definitions whose stored results depend on it: the reliability update and the trend
  thresholds of the evolution engine apply \<open>fl\<close> to the result of every operation.
  \<open>rounding F fl\<close> says what is used of it: \<open>fl\<close> maps every real to a nearest
  element of the set \<open>F\<close> of representable numbers, keeps the representable numbers
  and is monotone. Binary64, rounding to nearest, is such a function on every result
  that does not overflow.

  \<open>Math.round\<close> rounds to the nearest integer, a tie going towards plus infinity.
\<close>

definition Math_round :: "real \<Rightarrow> int" where
  "Math_round x = \<lfloor>x + 1 / 2\<rfloor>"


text \<open>
  Two roundings: exact arithmetic (every real representable), and the fixed-point
  rounding to multiples of \<open>2\<^sup>-\<^sup>4\<^sup>6\<close>, the spacing of binary64 between 64 and 128.
\<close>

definition exact :: "real \<Rightarrow> real" where
  "exact x = x"



section \<open>Collaborator results (src/server/agents)\<close>

text \<open>
  The result interfaces of the four research agents, with the fields the orchestrator
  reads. An optional field (\<open>f?: T\<close>) is an \<open>option\<close>.
\<close>

datatype WebsiteStatus = live | down | redirect | error

record ContactInfo =
  emails :: "string list option"
  phones :: "string list option"

record WebsiteAnalysisResult =
  status :: WebsiteStatus
  contactInfo :: "ContactInfo option"
  confidenceScore :: real

record SocialProfile =
  platform :: string
  verified :: bool
  confidenceScore :: real

record SocialHuntResult =
  platforms :: "SocialProfile list"
  socialPresenceScore :: real

record NewsReputationResult =
  totalMentions :: int
  reputationScore :: real

record MarketingOpportunity =
  area :: string

record BusinessAnalysisResult =
  digitalMaturityScore :: real
  opportunities :: "MarketingOpportunity list"

section \<open>The platform list of the social stage (src/server/agents/social-hunter.ts)\<close>

text \<open>
  \<open>huntSocialProfiles\<close> searches the six platforms of \<open>platformDomains\<close>, one search
  each, keeps the searches that found a profile, verifies every profile found and
  adjusts its confidence. What a search finds (the rounded match score, 70 when the
  match has none; nothing when the search fails) and what the verification says are the
  world's.
\<close>

definition platformDomains :: "(string \<times> string) list" where
  "platformDomains =
     [(''linkedin'', ''linkedin.com''), (''facebook'', ''facebook.com''),
      (''instagram'', ''instagram.com''), (''twitter'', ''twitter.com''),
      (''youtube'', ''youtube.com''), (''tiktok'', ''tiktok.com'')]"

definition searchPlatform :: "(string \<Rightarrow> real option) \<Rightarrow> string \<Rightarrow> SocialProfile option" where
  "searchPlatform found p =
     (case found p of
        None \<Rightarrow> None
      | Some score \<Rightarrow> Some \<lparr>platform = p, verified = False, confidenceScore = score\<rparr>)"

definition verifyProfile :: "(string \<Rightarrow> bool) \<Rightarrow> SocialProfile \<Rightarrow> SocialProfile" where
  "verifyProfile verify profile =
     (let v = verify (platform profile);
          profile = profile\<lparr>verified := v\<rparr>
      in if v
         then profile\<lparr>confidenceScore := min (SocialProfile.confidenceScore profile + 10) 100\<rparr>
         else profile\<lparr>confidenceScore := max (SocialProfile.confidenceScore profile - 20) 30\<rparr>)"

definition foundProfiles ::
  "(string \<Rightarrow> real option) \<Rightarrow> (string \<Rightarrow> bool) \<Rightarrow> SocialProfile list" where
  "foundProfiles found verify =
     map (verifyProfile verify)
       (List.map_filter (\<lambda>(p, domain). searchPlatform found p) platformDomains)"

section \<open>The fused record (src/server/orchestrator/index.ts)\<close>

record ComprehensiveIntelligence =
  companyId :: string
  companyName :: string
  websiteData :: "WebsiteAnalysisResult option"
  socialData :: "SocialHuntResult option"
  newsData :: "NewsReputationResult option"
  businessData :: "BusinessAnalysisResult option"
  digitalMaturityScore :: real
  socialPresenceScore :: real
  reputationScore :: real
  opportunityScore :: int
  completenessScore :: int
  confidenceScore :: int
  dataGaps :: "string list"
  researchedAt :: int

record Weights =
  website :: int
  social :: int
  news :: int
  business :: int
  contactInfo :: int
  socialProfiles :: int

definition weights :: Weights where
  "weights = \<lparr>website = 30, social = 20, news = 15, business = 15,
                contactInfo = 10, socialProfiles = 10\<rparr>"

text \<open>\<open>xs?.length\<close> as a condition: true when the list is there and not empty.\<close>

definition has_length :: "'a list option \<Rightarrow> bool" where
  "has_length xs = (case xs of None \<Rightarrow> False | Some ys \<Rightarrow> length ys \<noteq> 0)"

text \<open>\<open>intel.websiteData?.contactInfo?.emails\<close> and \<open>...?.phones\<close>.\<close>

definition website_emails :: "ComprehensiveIntelligence \<Rightarrow> string list option" where
  "website_emails intel =
     (case websiteData intel of None \<Rightarrow> None
      | Some w \<Rightarrow> (case WebsiteAnalysisResult.contactInfo w of None \<Rightarrow> None
                  | Some c \<Rightarrow> emails c))"

definition website_phones :: "ComprehensiveIntelligence \<Rightarrow> string list option" where
  "website_phones intel =
     (case websiteData intel of None \<Rightarrow> None
      | Some w \<Rightarrow> (case WebsiteAnalysisResult.contactInfo w of None \<Rightarrow> None
                  | Some c \<Rightarrow> phones c))"

definition calculateCompleteness :: "ComprehensiveIntelligence \<Rightarrow> int" where
  "calculateCompleteness intel =
     (let score = 0;
          score = (if (case websiteData intel of None \<Rightarrow> False
                       | Some w \<Rightarrow> WebsiteAnalysisResult.status w = live)
                   then score + website weights else score);
          score = (if (case socialData intel of None \<Rightarrow> False
                       | Some s \<Rightarrow> length (platforms s) > 0)
                   then score + social weights else score);
          score = (if (case newsData intel of None \<Rightarrow> False
                       | Some n \<Rightarrow> totalMentions n > 0)
                   then score + news weights else score);
          score = (if (case businessData intel of None \<Rightarrow> False
                       | Some b \<Rightarrow> length (opportunities b) > 0)
                   then score + business weights else score);
          score = (if has_length (website_emails intel) \<or> has_length (website_phones intel)
                   then score + Weights.contactInfo weights else score);
          score = (if (case socialData intel of None \<Rightarrow> False
                       | Some s \<Rightarrow> length (platforms s) \<ge> 2)
                   then score + socialProfiles weights else score)
      in score)"

definition identifyDataGaps :: "ComprehensiveIntelligence \<Rightarrow> string list" where
  "identifyDataGaps intel =
     (let gaps = [];
          gaps = (if (case websiteData intel of None \<Rightarrow> True
                      | Some w \<Rightarrow> WebsiteAnalysisResult.status w \<noteq> live)
                  then gaps @ [''Website not accessible''] else gaps);
          gaps = (if \<not> has_length (website_emails intel)
                  then gaps @ [''No email found''] else gaps);
          gaps = (if (case socialData intel of None \<Rightarrow> True
                      | Some s \<Rightarrow> length (platforms s) = 0)
                  then gaps @ [''No social profiles found''] else gaps);
          gaps = (if (case socialData intel of None \<Rightarrow> True
                      | Some s \<Rightarrow> find (\<lambda>p. platform p = ''linkedin'') (platforms s) = None)
                  then gaps @ [''LinkedIn profile not found''] else gaps);
          gaps = (if (case newsData intel of None \<Rightarrow> True
                      | Some n \<Rightarrow> totalMentions n = 0)
                  then gaps @ [''No news coverage found''] else gaps)
      in gaps)"

text \<open>
  The confidence expression of \<open>executeResearch\<close>:
  \<open>Math.round((websiteData?.confidenceScore || 0) / 2
     + (socialData?.platforms.reduce((sum, p) => sum + p.confidenceScore, 0) || 0)
       / (socialData?.platforms.length || 1) / 4 + 25)\<close>.
  On numbers \<open>x || 0\<close> is \<open>x\<close>; \<open>n || 1\<close> is 1 when \<open>n\<close> is 0 or missing.
\<close>

definition website_confidence :: "ComprehensiveIntelligence \<Rightarrow> real" where
  "website_confidence intel =
     (case websiteData intel of None \<Rightarrow> 0
      | Some w \<Rightarrow> WebsiteAnalysisResult.confidenceScore w)"

definition social_confidence_sum :: "ComprehensiveIntelligence \<Rightarrow> real" where
  "social_confidence_sum intel =
     (case socialData intel of None \<Rightarrow> 0
      | Some s \<Rightarrow> foldl (\<lambda>sum p. sum + SocialProfile.confidenceScore p) 0 (platforms s))"

definition social_platform_count :: "ComprehensiveIntelligence \<Rightarrow> nat" where
  "social_platform_count intel =
     (case socialData intel of None \<Rightarrow> 1
      | Some s \<Rightarrow> (if length (platforms s) = 0 then 1 else length (platforms s)))"

definition calculateConfidence :: "ComprehensiveIntelligence \<Rightarrow> int" where
  "calculateConfidence intel =
     Math_round (website_confidence intel / 2
       + social_confidence_sum intel / real (social_platform_count intel) / 4
       + 25)"

section \<open>The six completeness criteria, as the specification words them\<close>

definition site_live :: "ComprehensiveIntelligence \<Rightarrow> bool" where
  "site_live intel = (\<exists>w. websiteData intel = Some w \<and> WebsiteAnalysisResult.status w = live)"

definition platforms_found :: "ComprehensiveIntelligence \<Rightarrow> SocialProfile list" where
  "platforms_found intel = (case socialData intel of None \<Rightarrow> [] | Some s \<Rightarrow> platforms s)"

definition platform_found :: "ComprehensiveIntelligence \<Rightarrow> bool" where
  "platform_found intel = (platforms_found intel \<noteq> [])"

definition mention_found :: "ComprehensiveIntelligence \<Rightarrow> bool" where
  "mention_found intel = (\<exists>n. newsData intel = Some n \<and> 1 \<le> totalMentions n)"

definition opportunity_found :: "ComprehensiveIntelligence \<Rightarrow> bool" where
  "opportunity_found intel = (\<exists>b. businessData intel = Some b \<and> opportunities b \<noteq> [])"

definition contact_found :: "ComprehensiveIntelligence \<Rightarrow> bool" where
  "contact_found intel =
     (\<exists>w c. websiteData intel = Some w \<and> WebsiteAnalysisResult.contactInfo w = Some c \<and>
        ((\<exists>es. emails c = Some es \<and> es \<noteq> []) \<or> (\<exists>ps. phones c = Some ps \<and> ps \<noteq> [])))"

definition two_distinct_platforms :: "ComprehensiveIntelligence \<Rightarrow> bool" where
  "two_distinct_platforms intel =
     (2 \<le> card (set (map platform (platforms_found intel))))"

definition weighted_sum :: "bool \<Rightarrow> bool \<Rightarrow> bool \<Rightarrow> bool \<Rightarrow> bool \<Rightarrow> bool \<Rightarrow> int" where
  "weighted_sum c1 c2 c3 c4 c5 c6 =
     (if c1 then 30 else 0) + (if c2 then 20 else 0) + (if c3 then 15 else 0)
     + (if c4 then 15 else 0) + (if c5 then 10 else 0) + (if c6 then 10 else 0)"

section \<open>The confidence formula, as the specification words it\<close>


section \<open>The database\<close>

text \<open>
  The tables the core reads and writes. The two tables of the evolution engine are
  lists, as its queries sort and truncate them; the evolution log is kept in insertion
  order. Times are milliseconds since the epoch. The Prisma schema that declares the
  tables is not among the sources: the columns and the values of the enumerations are
  those the code reads and writes, and a created reliability row starts with a
  \<open>currentDailyUsage\<close> of 0 (no result below depends on that default).
\<close>

datatype EventType = SOURCE_SUCCESS | SOURCE_FAILURE | RESEARCH_COMPLETE | ADAPTATION_APPLIED

record EvolutionLog =
  eventType :: EventType
  source :: "string option"
  industry :: "string option"
  companyId :: "string option"
  durationMs :: "int option"
  dataQualityScore :: "real option"
  completenessScore :: "real option"
  sourcesUsed :: "string list"
  sourcesFailed :: "string list"
  gaps :: "string list"
  errorCode :: "string option"
  errorMessage :: "string option"
  retryCount :: "int option"
  fallbackUsed :: "string option"
  timestamp :: int

record SourceConfig =
  sourceName :: string
  isEnabled :: bool
  priority :: int
  successRate :: real
  avgDurationMs :: int
  avgQualityScore :: real
  requestsPerMinute :: int
  delayBetweenMs :: int
  dailyLimit :: int
  currentDailyUsage :: int
  lastUsed :: "int option"

datatype JobStatus = PENDING | QUEUED | RUNNING | COMPLETED | FAILED | CANCELLED

datatype CompanyStatus = PENDING | QUEUED | RESEARCHING | COMPLETED | FAILED

datatype AgentStatus = PENDING | RUNNING | COMPLETED | FAILED | SKIPPED

record ResearchJob =
  companyId :: string
  userId :: string
  priority :: int
  status :: JobStatus
  progress :: int
  websiteAnalysis :: AgentStatus
  socialMediaHunt :: AgentStatus
  ownerInvestigation :: AgentStatus
  competitorMapping :: AgentStatus
  newsAggregation :: AgentStatus
  businessAnalysis :: AgentStatus
  startedAt :: "int option"
  completedAt :: "int option"
  errorMessage :: "string option"
  updatedAt :: int

record Company =
  userId :: string
  companyName :: string
  website :: "string option"
  phone :: "string option"
  address :: "string option"
  status :: CompanyStatus

record ResearchResult =
  companyId :: string
  completenessScore :: int
  confidenceScore :: int
  qualityScore :: int
  websiteData :: "WebsiteAnalysisResult option"
  socialMediaData :: "SocialHuntResult option"
  newsData :: "NewsReputationResult option"
  businessAnalysisData :: "BusinessAnalysisResult option"
  mergedIntelligence :: ComprehensiveIntelligence
  opportunities :: "MarketingOpportunity list option"
  dataGaps :: "string list"
  updatedAt :: int

record Database =
  researchJob :: "string \<rightharpoonup> ResearchJob"
  company :: "string \<rightharpoonup> Company"
  researchResult :: "string \<rightharpoonup> ResearchResult"
  evolutionLog :: "EvolutionLog list"
  sourceConfig :: "SourceConfig list"

section \<open>Evolution engine (src/server/evolution/index.ts)\<close>

text \<open>
  Every operation of the engine catches what its database calls throw; the model takes
  those calls to succeed. The time of a call (\<open>new Date()\<close>, the default of the
  \<open>timestamp\<close> column) is a parameter, and so is the rounding \<open>fl\<close> of the
  floating-point operations. Durations are whole numbers of milliseconds.
\<close>

datatype QualityTrend = improving | declining | stable

record LearningInsights =
  topSources :: "string list"
  problematicSources :: "string list"
  avgProcessingTime :: int
  qualityTrend :: QualityTrend
  recommendations :: "string list"

definition new_event :: "EventType \<Rightarrow> int \<Rightarrow> EvolutionLog" where
  "new_event ty now =
     \<lparr>eventType = ty, source = None, industry = None, companyId = None, durationMs = None,
      dataQualityScore = None, completenessScore = None, sourcesUsed = [],
      sourcesFailed = [], gaps = [], errorCode = None, errorMessage = None,
      retryCount = None, fallbackUsed = None, timestamp = now\<rparr>"

definition evolutionLog_create :: "EvolutionLog \<Rightarrow> Database \<Rightarrow> Database" where
  "evolutionLog_create e db = db\<lparr>evolutionLog := evolutionLog db @ [e]\<rparr>"

text \<open>\<open>prisma.sourceConfig.findUnique({ where: { sourceName } })\<close>.\<close>

definition sourceConfig_findUnique :: "string \<Rightarrow> Database \<Rightarrow> SourceConfig option" where
  "sourceConfig_findUnique name db = find (\<lambda>c. sourceName c = name) (sourceConfig db)"

definition updateSourceMetrics ::
  "(real \<Rightarrow> real) \<Rightarrow> int \<Rightarrow> string \<Rightarrow> bool \<Rightarrow> int \<Rightarrow> real \<Rightarrow> Database \<Rightarrow> Database" where
  "updateSourceMetrics fl now name success duration quality db =
     (case sourceConfig_findUnique name db of
        Some existing \<Rightarrow>
          (let newSuccessRate =
                 (if success
                  then min 100
                         (fl (successRate existing
                              + fl (fl (100 - successRate existing) * fl (1 / 10))))
                  else max 0 (fl (successRate existing - 10)));
               newAvgDuration =
                 (if success \<and> duration > 0
                  then Math_round
                         (fl (fl (real_of_int (avgDurationMs existing) + real_of_int duration)
                              / 2))
                  else avgDurationMs existing);
               newAvgQuality =
                 (if success \<and> quality > 0
                  then fl (fl (avgQualityScore existing + quality) / 2)
                  else avgQualityScore existing)
           in db\<lparr>sourceConfig :=
                  map (\<lambda>c. if sourceName c = name
                           then c\<lparr>successRate := newSuccessRate,
                                  avgDurationMs := newAvgDuration,
                                  avgQualityScore := newAvgQuality,
                                  isEnabled := (newSuccessRate > 20),
                                  lastUsed := Some now,
                                  currentDailyUsage := currentDailyUsage c + 1\<rparr>
                           else c)
                    (sourceConfig db)\<rparr>)
      | None \<Rightarrow>
          db\<lparr>sourceConfig := sourceConfig db @
               [\<lparr>sourceName = name, isEnabled = True, priority = 5,
                 successRate = (if success then 100 else 0),
                 avgDurationMs = (if duration = 0 then 0 else duration),
                 avgQualityScore = (if quality = 0 then 50 else quality),
                 requestsPerMinute = 10, delayBetweenMs = 6000, dailyLimit = 500,
                 currentDailyUsage = 0, lastUsed = Some now\<rparr>]\<rparr>)"

definition logSourceSuccess ::
  "(real \<Rightarrow> real) \<Rightarrow> int \<Rightarrow> string \<Rightarrow> int \<Rightarrow> real \<Rightarrow> string option \<Rightarrow> Database \<Rightarrow>
     Database" where
  "logSourceSuccess fl now src duration quality ind db =
     updateSourceMetrics fl now src True duration quality
       (evolutionLog_create
          ((new_event SOURCE_SUCCESS now)\<lparr>source := Some src, industry := ind,
             durationMs := Some duration, dataQualityScore := Some quality\<rparr>) db)"

definition logSourceFailure ::
  "(real \<Rightarrow> real) \<Rightarrow> int \<Rightarrow> string \<Rightarrow> string \<Rightarrow> string \<Rightarrow> int option \<Rightarrow> string option \<Rightarrow>
     Database \<Rightarrow> Database" where
  "logSourceFailure fl now src code msg retries fallback db =
     updateSourceMetrics fl now src False 0 0
       (evolutionLog_create
          ((new_event SOURCE_FAILURE now)\<lparr>source := Some src, errorCode := Some code,
             EvolutionLog.errorMessage := Some msg, retryCount := retries,
             fallbackUsed := fallback\<rparr>) db)"

definition logResearchComplete ::
  "int \<Rightarrow> string \<Rightarrow> real \<Rightarrow> string list \<Rightarrow> string list \<Rightarrow> string list \<Rightarrow>
     Database \<Rightarrow> Database" where
  "logResearchComplete now cid completeness used failed gs db =
     evolutionLog_create
       ((new_event RESEARCH_COMPLETE now)\<lparr>EvolutionLog.companyId := Some cid,
          EvolutionLog.completenessScore := Some completeness, sourcesUsed := used,
          sourcesFailed := failed, gaps := gs\<rparr>) db"

text \<open>
  \<open>findMany({ where: { eventType: RESEARCH_COMPLETE }, orderBy: { timestamp: 'desc' },
  take: 20 })\<close>. The sort is stable: events of equal timestamp stay in insertion order.
\<close>

definition recentLogs :: "Database \<Rightarrow> EvolutionLog list" where
  "recentLogs db =
     take 20 (sort_key (\<lambda>e. - timestamp e)
                (filter (\<lambda>e. eventType e = RESEARCH_COMPLETE) (evolutionLog db)))"

text \<open>\<open>log.durationMs || 0\<close> and \<open>r.completenessScore || 0\<close>.\<close>

definition duration_or_0 :: "EvolutionLog \<Rightarrow> int" where
  "duration_or_0 e = (case durationMs e of None \<Rightarrow> 0 | Some d \<Rightarrow> d)"

definition completeness_or_0 :: "EvolutionLog \<Rightarrow> real" where
  "completeness_or_0 e = (case EvolutionLog.completenessScore e of None \<Rightarrow> 0 | Some c \<Rightarrow> c)"

definition avg_completeness :: "(real \<Rightarrow> real) \<Rightarrow> EvolutionLog list \<Rightarrow> real" where
  "avg_completeness fl half =
     fl (foldl (\<lambda>s r. fl (s + completeness_or_0 r)) 0 half / real (length half))"

fun join :: "string \<Rightarrow> string list \<Rightarrow> string" where
  "join sep [] = []"
| "join sep [x] = x"
| "join sep (x # y # ys) = x @ sep @ join sep (y # ys)"

definition processing_time_advice :: string where
  "processing_time_advice = ''Processing time is high. Consider optimizing parallel execution.''"

text \<open>
  \<open>analyzeLearningInsights\<close> fills the \<open>insights\<close> object in four blocks, one
  definition each: the source rankings, the average processing time, the quality trend
  and the recommendations. The quality trend rounds every sum, quotient and threshold
  by \<open>fl\<close>. The average processing time, a total of whole milliseconds divided twice
  and rounded to an integer, is computed exactly.
\<close>

definition rankSources :: "Database \<Rightarrow> LearningInsights \<Rightarrow> LearningInsights" where
  "rankSources db insights =
     (let top = take 5 (sort_key (\<lambda>c. - successRate c)
                  (filter (\<lambda>c. isEnabled c \<and> successRate c \<ge> 70) (sourceConfig db)));
          insights = insights\<lparr>topSources := map sourceName top\<rparr>;
          badSources = take 5 (sort_key successRate
                  (filter (\<lambda>c. successRate c < 50) (sourceConfig db)))
      in insights\<lparr>problematicSources := map sourceName badSources\<rparr>)"

definition averageProcessingTime :: "EvolutionLog list \<Rightarrow> LearningInsights \<Rightarrow> LearningInsights" where
  "averageProcessingTime recent insights =
     (if length recent > 0
      then (let totalDuration = foldl (\<lambda>sum log. sum + duration_or_0 log) 0 recent
            in insights\<lparr>avgProcessingTime :=
                 Math_round (real_of_int totalDuration / real (length recent) / 1000)\<rparr>)
      else insights)"

definition analyzeQualityTrend ::
  "(real \<Rightarrow> real) \<Rightarrow> EvolutionLog list \<Rightarrow> LearningInsights \<Rightarrow> LearningInsights" where
  "analyzeQualityTrend fl recent insights =
     (if length recent \<ge> 10
      then (let firstHalf = take 10 recent;
                secondHalf = drop 10 (take 20 recent);
                firstAvg = avg_completeness fl firstHalf;
                secondAvg = (if length secondHalf > 0 then avg_completeness fl secondHalf
                             else firstAvg)
            in if firstAvg > fl (secondAvg + 5) then insights\<lparr>qualityTrend := improving\<rparr>
               else if firstAvg < fl (secondAvg - 5)
               then insights\<lparr>qualityTrend := declining\<rparr>
               else insights)
      else insights)"

definition generateRecommendations :: "LearningInsights \<Rightarrow> LearningInsights" where
  "generateRecommendations insights =
     (let insights =
            (if length (problematicSources insights) > 0
             then insights\<lparr>recommendations := recommendations insights @
                    [''Consider reviewing: '' @ join '', '' (problematicSources insights)]\<rparr>
             else insights);
          insights =
            (if qualityTrend insights = declining
             then insights\<lparr>recommendations := recommendations insights @
                    [''Research quality is declining. Review agent configurations.'']\<rparr>
             else insights);
          insights =
            (if avgProcessingTime insights > 300
             then insights\<lparr>recommendations := recommendations insights @
                    [processing_time_advice]\<rparr>
             else insights)
      in insights)"

definition analyzeLearningInsights :: "(real \<Rightarrow> real) \<Rightarrow> Database \<Rightarrow> LearningInsights" where
  "analyzeLearningInsights fl db =
     (let insights = \<lparr>topSources = [], problematicSources = [], avgProcessingTime = 0,
                       qualityTrend = stable, recommendations = []\<rparr>;
          insights = rankSources db insights;
          recent = recentLogs db;
          insights = averageProcessingTime recent insights;
          insights = analyzeQualityTrend fl recent insights;
          insights = generateRecommendations insights
      in insights)"

section \<open>Database calls that may reject\<close>

text \<open>
  A call that throws returns \<open>Inl\<close> with the message of the error. An update of a row
  that does not exist rejects and changes nothing.
\<close>

type_synonym 'a outcome = "string + 'a"

definition record_not_found :: string where
  "record_not_found = ''Record to update not found.''"

definition prisma_researchJob_update ::
  "string \<Rightarrow> (ResearchJob \<Rightarrow> ResearchJob) \<Rightarrow> Database \<Rightarrow> unit outcome \<times> Database" where
  "prisma_researchJob_update jid f db =
     (case researchJob db jid of
        None \<Rightarrow> (Inl record_not_found, db)
      | Some j \<Rightarrow> (Inr (), db\<lparr>researchJob := (researchJob db)(jid \<mapsto> f j)\<rparr>))"

definition prisma_company_update ::
  "string \<Rightarrow> (Company \<Rightarrow> Company) \<Rightarrow> Database \<Rightarrow> unit outcome \<times> Database" where
  "prisma_company_update cid f db =
     (case company db cid of
        None \<Rightarrow> (Inl record_not_found, db)
      | Some c \<Rightarrow> (Inr (), db\<lparr>company := (company db)(cid \<mapsto> f c)\<rparr>))"

definition prisma_researchResult_upsert ::
  "string \<Rightarrow> ResearchResult \<Rightarrow> (ResearchResult \<Rightarrow> ResearchResult) \<Rightarrow> Database \<Rightarrow>
     unit outcome \<times> Database" where
  "prisma_researchResult_upsert cid create upd db =
     (Inr (), db\<lparr>researchResult := (researchResult db)
        (cid \<mapsto> (case researchResult db cid of None \<Rightarrow> create | Some r \<Rightarrow> upd r))\<rparr>)"

definition and_then ::
  "'a outcome \<times> Database \<Rightarrow> ('a \<Rightarrow> Database \<Rightarrow> 'b outcome \<times> Database) \<Rightarrow>
     'b outcome \<times> Database" where
  "and_then m f = (case m of (Inl e, db) \<Rightarrow> (Inl e, db) | (Inr a, db) \<Rightarrow> f a db)"

section \<open>Cancelling a job (src/server/routes/research.ts)\<close>

text \<open>The response: the HTTP status and the error text, or \<open>success\<close>.\<close>

type_synonym response = "nat \<times> string"

definition prisma_researchJob_findFirst :: "string \<Rightarrow> string \<Rightarrow> Database \<Rightarrow> ResearchJob option" where
  "prisma_researchJob_findFirst jid uid db =
     (case researchJob db jid of
        None \<Rightarrow> None
      | Some j \<Rightarrow> if ResearchJob.userId j = uid then Some j else None)"

definition cancel :: "string \<Rightarrow> string \<Rightarrow> Database \<Rightarrow> response \<times> Database" where
  "cancel uid jid db =
     (case prisma_researchJob_findFirst jid uid db of
        None \<Rightarrow> ((404, ''Research job not found''), db)
      | Some j \<Rightarrow>
          if ResearchJob.status j \<notin> set [JobStatus.PENDING, JobStatus.QUEUED, JobStatus.RUNNING]
          then ((400, ''Job cannot be cancelled''), db)
          else (case and_then
                       (prisma_researchJob_update jid
                          (\<lambda>j. j\<lparr>ResearchJob.status := JobStatus.CANCELLED\<rparr>) db)
                       (\<lambda>_. prisma_company_update (ResearchJob.companyId j)
                          (\<lambda>c. c\<lparr>Company.status := CompanyStatus.PENDING\<rparr>)) of
                  (Inl e, db') \<Rightarrow> ((500, ''Failed to cancel job''), db')
                | (Inr _, db') \<Rightarrow> ((200, ''success''), db')))"

section \<open>The stage sequencer (src/server/orchestrator/index.ts)\<close>

text \<open>
  The world of one run: what each collaborator call returns or throws, which database
  call of the run rejects (and with which message), and the time.
\<close>

datatype DbCall =
    LoadJob | MarkRunning | MarkResearching | UpdateProgress int | UpsertResult
  | MarkJobCompleted | MarkCompanyCompleted | MarkJobFailed | MarkCompanyFailed

record Env =
  analyzeWebsite :: "string \<Rightarrow> string \<Rightarrow> WebsiteAnalysisResult outcome"
  huntSocialProfiles ::
    "string \<Rightarrow> string option \<Rightarrow> string option \<Rightarrow> string option \<Rightarrow> SocialHuntResult outcome"
  aggregateNewsReputation :: "string \<Rightarrow> string option \<Rightarrow> NewsReputationResult outcome"
  analyzeBusinessOpportunities ::
    "string \<Rightarrow> WebsiteAnalysisResult option \<Rightarrow> SocialHuntResult option \<Rightarrow>
       NewsReputationResult option \<Rightarrow> BusinessAnalysisResult outcome"
  db_error :: "DbCall \<Rightarrow> string option"
  clock :: int

definition attempt ::
  "Env \<Rightarrow> DbCall \<Rightarrow> (Database \<Rightarrow> unit outcome \<times> Database) \<Rightarrow> Database \<Rightarrow>
     unit outcome \<times> Database" where
  "attempt env call step db =
     (case db_error env call of Some m \<Rightarrow> (Inl m, db) | None \<Rightarrow> step db)"

text \<open>\<open>updateJobProgress\<close> catches and logs what its update throws.\<close>

definition updateJobProgress ::
  "Env \<Rightarrow> string \<Rightarrow> int \<Rightarrow> (ResearchJob \<Rightarrow> ResearchJob) \<Rightarrow> Database \<Rightarrow> Database" where
  "updateJobProgress env jid p agentUpdates db =
     snd (attempt env (UpdateProgress p)
            (prisma_researchJob_update jid
               (\<lambda>j. (agentUpdates (j\<lparr>progress := p\<rparr>))\<lparr>ResearchJob.updatedAt := clock env\<rparr>))
            db)"

text \<open>\<open>s || undefined\<close> on a nullable string: null and the empty string are dropped.\<close>

definition truthy :: "string option \<Rightarrow> string option" where
  "truthy s = (case s of None \<Rightarrow> None | Some x \<Rightarrow> if x = [] then None else Some x)"

definition stage_website ::
  "Env \<Rightarrow> string \<Rightarrow> Company \<Rightarrow> ComprehensiveIntelligence \<Rightarrow> Database \<Rightarrow>
     ComprehensiveIntelligence outcome \<times> Database" where
  "stage_website env jid co intel db =
     (let db = updateJobProgress env jid 5 (\<lambda>j. j\<lparr>websiteAnalysis := AgentStatus.RUNNING\<rparr>) db
      in case (case truthy (website co) of
                 None \<Rightarrow> Inr intel
               | Some w \<Rightarrow>
                   (case analyzeWebsite env w (Company.companyName co) of
                      Inl e \<Rightarrow> Inl e
                    | Inr r \<Rightarrow> Inr (intel\<lparr>ComprehensiveIntelligence.websiteData := Some r\<rparr>))) of
           Inl e \<Rightarrow> (Inl e, db)
         | Inr intel \<Rightarrow>
             (Inr intel,
              updateJobProgress env jid 25
                (\<lambda>j. j\<lparr>websiteAnalysis := AgentStatus.COMPLETED\<rparr>) db))"

definition stage_social ::
  "Env \<Rightarrow> string \<Rightarrow> Company \<Rightarrow> ComprehensiveIntelligence \<Rightarrow> Database \<Rightarrow>
     ComprehensiveIntelligence outcome \<times> Database" where
  "stage_social env jid co intel db =
     (let db = updateJobProgress env jid 30 (\<lambda>j. j\<lparr>socialMediaHunt := AgentStatus.RUNNING\<rparr>) db
      in case huntSocialProfiles env (Company.companyName co) (truthy (website co))
                (truthy (phone co)) (truthy (address co)) of
           Inl e \<Rightarrow> (Inl e, db)
         | Inr r \<Rightarrow>
             (Inr (intel\<lparr>socialData := Some r\<rparr>),
              updateJobProgress env jid 50
                (\<lambda>j. j\<lparr>socialMediaHunt := AgentStatus.COMPLETED\<rparr>) db))"

definition stage_news ::
  "Env \<Rightarrow> string \<Rightarrow> Company \<Rightarrow> ComprehensiveIntelligence \<Rightarrow> Database \<Rightarrow>
     ComprehensiveIntelligence outcome \<times> Database" where
  "stage_news env jid co intel db =
     (let db = updateJobProgress env jid 55 (\<lambda>j. j\<lparr>newsAggregation := AgentStatus.RUNNING\<rparr>) db
      in case aggregateNewsReputation env (Company.companyName co) (truthy (address co)) of
           Inl e \<Rightarrow> (Inl e, db)
         | Inr r \<Rightarrow>
             (Inr (intel\<lparr>ComprehensiveIntelligence.newsData := Some r\<rparr>),
              updateJobProgress env jid 75
                (\<lambda>j. j\<lparr>newsAggregation := AgentStatus.COMPLETED\<rparr>) db))"

definition stage_business ::
  "Env \<Rightarrow> string \<Rightarrow> Company \<Rightarrow> ComprehensiveIntelligence \<Rightarrow> Database \<Rightarrow>
     ComprehensiveIntelligence outcome \<times> Database" where
  "stage_business env jid co intel db =
     (let db = updateJobProgress env jid 80 (\<lambda>j. j\<lparr>businessAnalysis := AgentStatus.RUNNING\<rparr>) db
      in case analyzeBusinessOpportunities env (Company.companyName co)
                (ComprehensiveIntelligence.websiteData intel) (socialData intel)
                (ComprehensiveIntelligence.newsData intel) of
           Inl e \<Rightarrow> (Inl e, db)
         | Inr r \<Rightarrow>
             (Inr (intel\<lparr>businessData := Some r\<rparr>),
              updateJobProgress env jid 100
                (\<lambda>j. j\<lparr>businessAnalysis := AgentStatus.COMPLETED\<rparr>) db))"

definition runStages ::
  "Env \<Rightarrow> string \<Rightarrow> Company \<Rightarrow> ComprehensiveIntelligence \<Rightarrow> Database \<Rightarrow>
     ComprehensiveIntelligence outcome \<times> Database" where
  "runStages env jid co intel db =
     and_then (stage_website env jid co intel db) (\<lambda>intel db.
     and_then (stage_social env jid co intel db) (\<lambda>intel db.
     and_then (stage_news env jid co intel db) (\<lambda>intel db.
       stage_business env jid co intel db)))"

text \<open>The final scores, the completeness, the confidence and the gaps.\<close>

definition finalScores :: "ComprehensiveIntelligence \<Rightarrow> ComprehensiveIntelligence" where
  "finalScores intel =
     (let intel = intel\<lparr>ComprehensiveIntelligence.digitalMaturityScore :=
            (case businessData intel of None \<Rightarrow> 0
             | Some b \<Rightarrow> BusinessAnalysisResult.digitalMaturityScore b)\<rparr>;
          intel = intel\<lparr>ComprehensiveIntelligence.socialPresenceScore :=
            (case socialData intel of None \<Rightarrow> 0
             | Some s \<Rightarrow> SocialHuntResult.socialPresenceScore s)\<rparr>;
          intel = intel\<lparr>ComprehensiveIntelligence.reputationScore :=
            (case ComprehensiveIntelligence.newsData intel of None \<Rightarrow> 50
             | Some n \<Rightarrow> if NewsReputationResult.reputationScore n = 0 then 50
                         else NewsReputationResult.reputationScore n)\<rparr>;
          intel = intel\<lparr>opportunityScore :=
            (case businessData intel of None \<Rightarrow> 0
             | Some b \<Rightarrow>
                 if length (BusinessAnalysisResult.opportunities b) = 0 then 0
                 else min (int (length (BusinessAnalysisResult.opportunities b)) * 15) 100)\<rparr>;
          intel = intel\<lparr>ComprehensiveIntelligence.completenessScore :=
            calculateCompleteness intel\<rparr>;
          intel = intel\<lparr>ComprehensiveIntelligence.confidenceScore :=
            calculateConfidence intel\<rparr>;
          intel = intel\<lparr>ComprehensiveIntelligence.dataGaps := identifyDataGaps intel\<rparr>
      in intel)"

text \<open>
  The two halves of the upsert. In the update half a field whose value is
  \<open>undefined\<close> is left as the row has it.
\<close>

definition result_create ::
  "Env \<Rightarrow> string \<Rightarrow> ComprehensiveIntelligence \<Rightarrow> ResearchResult" where
  "result_create env cid intel =
     \<lparr>ResearchResult.companyId = cid,
      completenessScore = ComprehensiveIntelligence.completenessScore intel,
      confidenceScore = ComprehensiveIntelligence.confidenceScore intel,
      qualityScore = ComprehensiveIntelligence.completenessScore intel,
      websiteData = ComprehensiveIntelligence.websiteData intel,
      socialMediaData = socialData intel,
      newsData = ComprehensiveIntelligence.newsData intel,
      businessAnalysisData = businessData intel,
      mergedIntelligence = intel,
      opportunities = map_option BusinessAnalysisResult.opportunities (businessData intel),
      dataGaps = ComprehensiveIntelligence.dataGaps intel,
      updatedAt = clock env\<rparr>"

definition keep_or :: "'a option \<Rightarrow> 'a option \<Rightarrow> 'a option" where
  "keep_or new old = (case new of None \<Rightarrow> old | Some v \<Rightarrow> Some v)"

definition result_update ::
  "Env \<Rightarrow> ComprehensiveIntelligence \<Rightarrow> ResearchResult \<Rightarrow> ResearchResult" where
  "result_update env intel r =
     r\<lparr>ResearchResult.completenessScore := ComprehensiveIntelligence.completenessScore intel,
       ResearchResult.confidenceScore := ComprehensiveIntelligence.confidenceScore intel,
       qualityScore := ComprehensiveIntelligence.completenessScore intel,
       ResearchResult.websiteData :=
         keep_or (ComprehensiveIntelligence.websiteData intel) (ResearchResult.websiteData r),
       socialMediaData := keep_or (socialData intel) (socialMediaData r),
       ResearchResult.newsData :=
         keep_or (ComprehensiveIntelligence.newsData intel) (ResearchResult.newsData r),
       businessAnalysisData := keep_or (businessData intel) (businessAnalysisData r),
       mergedIntelligence := intel,
       ResearchResult.opportunities :=
         keep_or (map_option BusinessAnalysisResult.opportunities (businessData intel))
           (ResearchResult.opportunities r),
       ResearchResult.dataGaps := ComprehensiveIntelligence.dataGaps intel,
       ResearchResult.updatedAt := clock env\<rparr>"

definition saveAndComplete ::
  "Env \<Rightarrow> string \<Rightarrow> string \<Rightarrow> ComprehensiveIntelligence \<Rightarrow> Database \<Rightarrow>
     ComprehensiveIntelligence outcome \<times> Database" where
  "saveAndComplete env jid cid intel db =
     and_then (attempt env UpsertResult
                 (prisma_researchResult_upsert cid (result_create env cid intel)
                    (result_update env intel))
                 db) (\<lambda>_ db.
     and_then (attempt env MarkJobCompleted
                 (prisma_researchJob_update jid
                    (\<lambda>j. j\<lparr>ResearchJob.status := JobStatus.COMPLETED,
                           completedAt := Some (clock env)\<rparr>))
                 db) (\<lambda>_ db.
     and_then (attempt env MarkCompanyCompleted
                 (prisma_company_update cid (\<lambda>c. c\<lparr>Company.status := CompanyStatus.COMPLETED\<rparr>))
                 db) (\<lambda>_ db. (Inr intel, db))))"

text \<open>The body of the \<open>try\<close> and the \<open>catch\<close> handler.\<close>

definition tryBlock ::
  "Env \<Rightarrow> string \<Rightarrow> string \<Rightarrow> Company \<Rightarrow> ComprehensiveIntelligence \<Rightarrow> Database \<Rightarrow>
     ComprehensiveIntelligence outcome \<times> Database" where
  "tryBlock env jid cid co intel db =
     and_then (runStages env jid co intel db)
       (\<lambda>intel db. saveAndComplete env jid cid (finalScores intel) db)"

definition catchBlock ::
  "Env \<Rightarrow> string \<Rightarrow> string \<Rightarrow> string \<Rightarrow> Database \<Rightarrow>
     ComprehensiveIntelligence outcome \<times> Database" where
  "catchBlock env jid cid e db =
     and_then (attempt env MarkJobFailed
                 (prisma_researchJob_update jid
                    (\<lambda>j. j\<lparr>ResearchJob.status := JobStatus.FAILED,
                           ResearchJob.errorMessage := Some e\<rparr>))
                 db) (\<lambda>_ db.
     and_then (attempt env MarkCompanyFailed
                 (prisma_company_update cid (\<lambda>c. c\<lparr>Company.status := CompanyStatus.FAILED\<rparr>))
                 db) (\<lambda>_ db. (Inl e, db)))"

definition initial_intel :: "Env \<Rightarrow> string \<Rightarrow> Company \<Rightarrow> ComprehensiveIntelligence" where
  "initial_intel env cid co =
     \<lparr>ComprehensiveIntelligence.companyId = cid, companyName = Company.companyName co,
      websiteData = None, socialData = None, newsData = None, businessData = None,
      digitalMaturityScore = 0, socialPresenceScore = 0, reputationScore = 0,
      opportunityScore = 0, completenessScore = 0, confidenceScore = 0,
      dataGaps = [], researchedAt = clock env\<rparr>"

text \<open>
  \<open>job.company\<close> is the company row loaded with the job, null when the row is
  missing. The code reads \<open>company.id\<close> first for the RESEARCHING update, after the job
  was set to RUNNING: on a null company that read throws a TypeError.
\<close>

definition null_company_error :: string where
  "null_company_error = ''Cannot read properties of null''"

definition executeResearch ::
  "Env \<Rightarrow> string \<Rightarrow> Database \<Rightarrow> ComprehensiveIntelligence outcome \<times> Database" where
  "executeResearch env jid db =
     (case db_error env LoadJob of
        Some m \<Rightarrow> (Inl m, db)
      | None \<Rightarrow>
     (case researchJob db jid of
        None \<Rightarrow> (Inl (''Job not found: '' @ jid), db)
      | Some job \<Rightarrow>
          (let loaded = company db (ResearchJob.companyId job)
           in and_then (attempt env MarkRunning
                          (prisma_researchJob_update jid
                             (\<lambda>j. j\<lparr>ResearchJob.status := JobStatus.RUNNING,
                                    startedAt := Some (clock env)\<rparr>))
                          db) (\<lambda>_ db.
              (case loaded of
                 None \<Rightarrow> (Inl null_company_error, db)
               | Some co \<Rightarrow>
                   and_then (attempt env MarkResearching
                               (prisma_company_update (ResearchJob.companyId job)
                                  (\<lambda>c. c\<lparr>Company.status := CompanyStatus.RESEARCHING\<rparr>))
                               db) (\<lambda>_ db.
                     (case tryBlock env jid (ResearchJob.companyId job) co
                             (initial_intel env (ResearchJob.companyId job) co) db of
                        (Inr intel, db') \<Rightarrow> (Inr intel, db')
                      | (Inl e, db') \<Rightarrow>
                          catchBlock env jid (ResearchJob.companyId job) e db')))))))"

section \<open>Histories of engine calls\<close>


text \<open>Any sequence of calls of the three logging operations.\<close>

datatype EngineCall =
    LogSuccess int string int real "string option"
  | LogFailure int string string string "int option" "string option"
  | LogComplete int string real "string list" "string list" "string list"

fun engine_call :: "(real \<Rightarrow> real) \<Rightarrow> EngineCall \<Rightarrow> Database \<Rightarrow> Database" where
  "engine_call fl (LogSuccess now src duration quality ind) db =
     logSourceSuccess fl now src duration quality ind db"
| "engine_call fl (LogFailure now src code msg retries fallback) db =
     logSourceFailure fl now src code msg retries fallback db"
| "engine_call fl (LogComplete now cid completeness used failed gs) db =
     logResearchComplete now cid completeness used failed gs db"

fun engine_calls :: "(real \<Rightarrow> real) \<Rightarrow> EngineCall list \<Rightarrow> Database \<Rightarrow> Database" where
  "engine_calls fl [] db = db"
| "engine_calls fl (c # cs) db = engine_calls fl cs (engine_call fl c db)"


definition completion_events :: "Database \<Rightarrow> EvolutionLog list" where
  "completion_events db = filter (\<lambda>e. eventType e = RESEARCH_COMPLETE) (evolutionLog db)"

definition no_completion_duration :: "Database \<Rightarrow> bool" where
  "no_completion_duration db = list_all (\<lambda>e. durationMs e = None) (completion_events db)"

section \<open>The quality trend, as the specification words it\<close>



text \<open>
  The values a completeness score of the fuser can take: the multiples of 5 from 0 to
  100. Their sums over a window and the halves of these sums are representable when
  \<open>F\<close> holds the halves of the integers up to 2010.
\<close>

definition completeness_values :: "real list" where
  "completeness_values = map (\<lambda>j. 5 * real j) [0..<21]"


text \<open>The success rate stored for a source, if it has a row.\<close>

definition successRate_of :: "string \<Rightarrow> Database \<Rightarrow> real option" where
  "successRate_of src db = map_option successRate (sourceConfig_findUnique src db)"

section \<open>What a run leaves alone\<close>

text \<open>The two tables of the evolution engine are as they were.\<close>

definition engine_untouched :: "Database \<Rightarrow> Database \<Rightarrow> bool" where
  "engine_untouched db db' =
     (evolutionLog db' = evolutionLog db \<and> sourceConfig db' = sourceConfig db)"

text \<open>What the store shows of the status of a job and of a company.\<close>

definition job_status :: "string \<Rightarrow> Database \<Rightarrow> JobStatus option" where
  "job_status jid db = map_option ResearchJob.status (researchJob db jid)"

definition company_status :: "string \<Rightarrow> Database \<Rightarrow> CompanyStatus option" where
  "company_status cid db = map_option Company.status (company db cid)"

text \<open>
  Only rows of the job table were written, no job row was added or removed, and no
  job changed its status.
\<close>

definition only_jobs_written :: "Database \<Rightarrow> Database \<Rightarrow> bool" where
  "only_jobs_written db db' =
     (company db' = company db \<and> researchResult db' = researchResult db
      \<and> (\<forall>k. job_status k db' = job_status k db))"

text \<open>
  The outcome of the four collaborator calls of a run, in their order, up to the first
  one that throws.
\<close>

definition website_call ::
  "Env \<Rightarrow> Company \<Rightarrow> ComprehensiveIntelligence \<Rightarrow> ComprehensiveIntelligence outcome" where
  "website_call env co intel =
     (case truthy (website co) of
        None \<Rightarrow> Inr intel
      | Some w \<Rightarrow>
          (case analyzeWebsite env w (Company.companyName co) of
             Inl e \<Rightarrow> Inl e
           | Inr r \<Rightarrow> Inr (intel\<lparr>ComprehensiveIntelligence.websiteData := Some r\<rparr>)))"

definition social_call ::
  "Env \<Rightarrow> Company \<Rightarrow> ComprehensiveIntelligence \<Rightarrow> ComprehensiveIntelligence outcome" where
  "social_call env co intel =
     (case huntSocialProfiles env (Company.companyName co) (truthy (website co))
             (truthy (phone co)) (truthy (address co)) of
        Inl e \<Rightarrow> Inl e
      | Inr r \<Rightarrow> Inr (intel\<lparr>socialData := Some r\<rparr>))"

definition news_call ::
  "Env \<Rightarrow> Company \<Rightarrow> ComprehensiveIntelligence \<Rightarrow> ComprehensiveIntelligence outcome" where
  "news_call env co intel =
     (case aggregateNewsReputation env (Company.companyName co) (truthy (address co)) of
        Inl e \<Rightarrow> Inl e
      | Inr r \<Rightarrow> Inr (intel\<lparr>ComprehensiveIntelligence.newsData := Some r\<rparr>))"

definition business_call ::
  "Env \<Rightarrow> Company \<Rightarrow> ComprehensiveIntelligence \<Rightarrow> ComprehensiveIntelligence outcome" where
  "business_call env co intel =
     (case analyzeBusinessOpportunities env (Company.companyName co)
             (ComprehensiveIntelligence.websiteData intel) (socialData intel)
             (ComprehensiveIntelligence.newsData intel) of
        Inl e \<Rightarrow> Inl e
      | Inr r \<Rightarrow> Inr (intel\<lparr>businessData := Some r\<rparr>))"

definition collaborator_results ::
  "Env \<Rightarrow> Company \<Rightarrow> ComprehensiveIntelligence \<Rightarrow> ComprehensiveIntelligence outcome" where
  "collaborator_results env co intel =
     (case website_call env co intel of Inl e \<Rightarrow> Inl e | Inr i1 \<Rightarrow>
     (case social_call env co i1 of Inl e \<Rightarrow> Inl e | Inr i2 \<Rightarrow>
     (case news_call env co i2 of Inl e \<Rightarrow> Inl e | Inr i3 \<Rightarrow>
        business_call env co i3)))"

text \<open>The row the upsert of a run writes for a company.\<close>

definition upserted :: "Env \<Rightarrow> string \<Rightarrow> ComprehensiveIntelligence \<Rightarrow> Database \<Rightarrow> ResearchResult" where
  "upserted env cid intel db =
     (case researchResult db cid of
        None \<Rightarrow> result_create env cid intel
      | Some r \<Rightarrow> result_update env intel r)"

text \<open>A job and its company marked failed, or completed.\<close>

definition marked_failed :: "string \<Rightarrow> string \<Rightarrow> string \<Rightarrow> Database \<Rightarrow> bool" where
  "marked_failed jid cid e db =
     ((case researchJob db jid of
         None \<Rightarrow> False
       | Some j \<Rightarrow> ResearchJob.status j = JobStatus.FAILED
                   \<and> ResearchJob.errorMessage j = Some e)
      \<and> (case company db cid of
            None \<Rightarrow> False
          | Some c \<Rightarrow> Company.status c = CompanyStatus.FAILED))"

definition marked_completed :: "string \<Rightarrow> string \<Rightarrow> Database \<Rightarrow> bool" where
  "marked_completed jid cid db =
     ((case researchJob db jid of
         None \<Rightarrow> False
       | Some j \<Rightarrow> ResearchJob.status j = JobStatus.COMPLETED)
      \<and> (case company db cid of
            None \<Rightarrow> False
          | Some c \<Rightarrow> Company.status c = CompanyStatus.COMPLETED))"

section \<open>Concrete inputs\<close>

text \<open>
  A fused record with a live website carrying one contact email, two social platforms,
  no news mention and one opportunity (scenario 4 of the specification).
\<close>

definition example_intel :: ComprehensiveIntelligence where
  "example_intel =
     \<lparr>ComprehensiveIntelligence.companyId = ''c1'', companyName = ''Acme'',
      websiteData = Some \<lparr>WebsiteAnalysisResult.status = live,
        contactInfo = Some \<lparr>emails = Some [''info@acme.test''], phones = None\<rparr>,
        confidenceScore = 100\<rparr>,
      socialData = Some \<lparr>platforms =
          [\<lparr>platform = ''linkedin'', verified = True, confidenceScore = 100\<rparr>,
           \<lparr>platform = ''facebook'', verified = True, confidenceScore = 100\<rparr>],
        socialPresenceScore = 45\<rparr>,
      newsData = Some \<lparr>totalMentions = 0, reputationScore = 50\<rparr>,
      businessData = Some \<lparr>BusinessAnalysisResult.digitalMaturityScore = 40,
        opportunities = [\<lparr>area = ''seo''\<rparr>]\<rparr>,
      digitalMaturityScore = 0, socialPresenceScore = 0, reputationScore = 0,
      opportunityScore = 0, completenessScore = 0, confidenceScore = 0,
      dataGaps = [], researchedAt = 0\<rparr>"




definition empty_db :: Database where
  "empty_db = \<lparr>researchJob = Map.empty, company = Map.empty, researchResult = Map.empty,
                evolutionLog = [], sourceConfig = []\<rparr>"

text \<open>A reliability row for the source \<open>exa\<close> with a given success rate.\<close>

definition exa_row :: "real \<Rightarrow> SourceConfig" where
  "exa_row r =
     \<lparr>sourceName = ''exa'', isEnabled = True, priority = 5, successRate = r,
      avgDurationMs = 100, avgQualityScore = 60, requestsPerMinute = 10,
      delayBetweenMs = 6000, dailyLimit = 500, currentDailyUsage = 0, lastUsed = None\<rparr>"

definition exa_db :: "real \<Rightarrow> Database" where
  "exa_db r = empty_db\<lparr>sourceConfig := [exa_row r]\<rparr>"



text \<open>A history mixing the three logging operations.\<close>

definition mixed_history :: "EngineCall list" where
  "mixed_history =
     [LogSuccess 1 ''exa'' 400000 80 None,
      LogComplete 2 ''c1'' 85 [''exa''] [] [],
      LogFailure 3 ''tavily'' ''TIMEOUT'' ''timed out'' None None,
      LogComplete 4 ''c2'' 40 [] [''tavily''] [''No news coverage found'']]"

text \<open>
  A queued job for the company Acme, and a world in which every collaborator returns
  the data of \<open>example_intel\<close> and no database call rejects.
\<close>

definition acme :: Company where
  "acme = \<lparr>Company.userId = ''u1'', companyName = ''Acme'',
            website = Some ''https://acme.test'', phone = None, address = None,
            status = CompanyStatus.QUEUED\<rparr>"

definition job1 :: ResearchJob where
  "job1 = \<lparr>ResearchJob.companyId = ''c1'', userId = ''u1'', priority = 0,
            status = JobStatus.QUEUED, progress = 0,
            websiteAnalysis = AgentStatus.PENDING, socialMediaHunt = AgentStatus.PENDING,
            ownerInvestigation = AgentStatus.PENDING, competitorMapping = AgentStatus.PENDING,
            newsAggregation = AgentStatus.PENDING, businessAnalysis = AgentStatus.PENDING,
            startedAt = None, completedAt = None, errorMessage = None, updatedAt = 0\<rparr>"

definition queued_db :: Database where
  "queued_db = empty_db\<lparr>researchJob := [''j1'' \<mapsto> job1], company := [''c1'' \<mapsto> acme]\<rparr>"

definition calm_env :: Env where
  "calm_env =
     \<lparr>analyzeWebsite = (\<lambda>u n. Inr \<lparr>WebsiteAnalysisResult.status = live,
          contactInfo = Some \<lparr>emails = Some [''info@acme.test''], phones = None\<rparr>,
          confidenceScore = 100\<rparr>),
      huntSocialProfiles = (\<lambda>n w p a. Inr \<lparr>platforms =
          [\<lparr>platform = ''linkedin'', verified = True, confidenceScore = 100\<rparr>,
           \<lparr>platform = ''facebook'', verified = True, confidenceScore = 100\<rparr>],
          socialPresenceScore = 45\<rparr>),
      aggregateNewsReputation = (\<lambda>n a. Inr \<lparr>totalMentions = 0, reputationScore = 50\<rparr>),
      analyzeBusinessOpportunities = (\<lambda>n w s m.
          Inr \<lparr>BusinessAnalysisResult.digitalMaturityScore = 40,
               opportunities = [\<lparr>area = ''seo''\<rparr>]\<rparr>),
      db_error = (\<lambda>c. None), clock = 1000\<rparr>"

text \<open>The same world, except that the social stage throws.\<close>

definition social_throws_env :: Env where
  "social_throws_env = calm_env\<lparr>huntSocialProfiles := (\<lambda>n w p a. Inl ''search failed'')\<rparr>"

text \<open>The same world, except that the update of the job to RUNNING rejects.\<close>

definition running_rejected_env :: Env where
  "running_rejected_env =
     calm_env\<lparr>db_error := (\<lambda>c. if c = MarkRunning then Some ''database unavailable''
                                else None)\<rparr>"

text \<open>
  The same world, except that the upsert of the result rejects and then the update of
  the job to FAILED rejects too.
\<close>

definition double_fault_env :: Env where
  "double_fault_env =
     calm_env\<lparr>db_error := (\<lambda>c. if c = UpsertResult then Some ''upsert failed''
                                else if c = MarkJobFailed then Some ''database unavailable''
                                else None)\<rparr>"

text \<open>The job running and its company being researched.\<close>

definition running_db :: Database where
  "running_db =
     empty_db\<lparr>researchJob := [''j1'' \<mapsto> job1\<lparr>ResearchJob.status := JobStatus.RUNNING\<rparr>],
              company := [''c1'' \<mapsto> acme\<lparr>Company.status := CompanyStatus.RESEARCHING\<rparr>]\<rparr>"


section \<open>Completeness score\<close>

lemma has_length_iff: "has_length xs = (\<exists>ys. xs = Some ys \<and> ys \<noteq> [])"
  by (cases xs) (simp_all add: has_length_def)

lemma contact_found_iff:
  "contact_found intel = (has_length (website_emails intel) \<or> has_length (website_phones intel))"
  by (auto simp: contact_found_def has_length_iff website_emails_def website_phones_def
           split: option.splits)

lemma two_distinct_iff:
  assumes "distinct (map platform (platforms_found intel))"
  shows "two_distinct_platforms intel = (2 \<le> length (platforms_found intel))"
  using distinct_card [OF assms] by (simp add: two_distinct_platforms_def del: set_map)

lemma calculateCompleteness_weighted:
  "calculateCompleteness intel =
     weighted_sum (site_live intel) (platform_found intel) (mention_found intel)
       (opportunity_found intel) (contact_found intel) (2 \<le> length (platforms_found intel))"
proof -
  have c1: "(case ComprehensiveIntelligence.websiteData intel of None \<Rightarrow> False
             | Some w \<Rightarrow> WebsiteAnalysisResult.status w = live) = site_live intel"
    by (simp add: site_live_def split: option.splits)
  have c2: "(case socialData intel of None \<Rightarrow> False
             | Some s \<Rightarrow> length (platforms s) > 0) = platform_found intel"
    by (simp add: platform_found_def platforms_found_def split: option.splits)
  have c3: "(case ComprehensiveIntelligence.newsData intel of None \<Rightarrow> False
             | Some n \<Rightarrow> totalMentions n > 0) = mention_found intel"
    by (auto simp: mention_found_def split: option.splits)
  have c4: "(case ComprehensiveIntelligence.businessData intel of None \<Rightarrow> False
             | Some b \<Rightarrow> length (BusinessAnalysisResult.opportunities b) > 0) = opportunity_found intel"
    by (simp add: opportunity_found_def split: option.splits)
  have c6: "(case socialData intel of None \<Rightarrow> False
             | Some s \<Rightarrow> length (platforms s) \<ge> 2) = (2 \<le> length (platforms_found intel))"
    by (simp add: platforms_found_def split: option.splits)
  show ?thesis
    unfolding calculateCompleteness_def c1 c2 c3 c4 c6 contact_found_iff
    by (simp add: weighted_sum_def weights_def)
qed

lemma weighted_sum_range: "0 \<le> weighted_sum c1 c2 c3 c4 c5 c6 \<and> weighted_sum c1 c2 c3 c4 c5 c6 \<le> 100"
  by (simp add: weighted_sum_def)

lemma finalScores_scores:
  "ComprehensiveIntelligence.completenessScore (finalScores intel) = calculateCompleteness intel"
  "ComprehensiveIntelligence.confidenceScore (finalScores intel) = calculateConfidence intel"
  by (simp_all add: finalScores_def Let_def calculateCompleteness_def calculateConfidence_def
        website_emails_def website_phones_def has_length_def website_confidence_def
        social_confidence_sum_def social_platform_count_def)

lemma platform_verifyProfile [simp]: "platform (verifyProfile verify p) = platform p"
  by (simp add: verifyProfile_def Let_def)

lemma platform_searchPlatform: "searchPlatform found p = Some x \<Longrightarrow> platform x = p"
  by (auto simp: searchPlatform_def split: option.splits)

lemma map_filter_platforms:
  "map platform (List.map_filter (\<lambda>(p, domain). searchPlatform found p) ds)
     = filter (\<lambda>p. found p \<noteq> None) (map fst ds)"
  by (induction ds)
     (auto simp: List.map_filter_simps searchPlatform_def split: option.splits)

text \<open>The social stage returns at most one profile for each of its six platforms.\<close>

lemma foundProfiles_distinct: "distinct (map platform (foundProfiles found verify))"
proof -
  have "map platform (foundProfiles found verify)
          = filter (\<lambda>p. found p \<noteq> None) (map fst platformDomains)"
    by (simp add: foundProfiles_def map_filter_platforms comp_def)
  moreover have "distinct (map fst platformDomains)"
    by (simp add: platformDomains_def)
  ultimately show ?thesis by simp
qed

text \<open>
  C1. The completeness score lies in [0,100] and is the exact sum of the six
  all-or-nothing weights: 30 for a live website, 20 for at least one social platform,
  15 for at least one news mention, 15 for at least one opportunity, 10 for a contact
  email or phone on the website, 10 for at least two distinct social platforms. It is
  the score that executeResearch stores in the fused record. The social stage returns
  at most one profile per platform (\<open>foundProfiles_distinct\<close>), so the platform names of
  a fused record are pairwise distinct; that is the hypothesis.
\<close>

theorem completeness_is_weighted_sum:
  assumes "distinct (map platform (platforms_found intel))"
  shows "ComprehensiveIntelligence.completenessScore (finalScores intel)
           = calculateCompleteness intel
         \<and> calculateCompleteness intel =
           weighted_sum (site_live intel) (platform_found intel) (mention_found intel)
             (opportunity_found intel) (contact_found intel) (two_distinct_platforms intel)
         \<and> 0 \<le> calculateCompleteness intel \<and> calculateCompleteness intel \<le> 100"
  using two_distinct_iff [OF assms] calculateCompleteness_weighted [of intel]
    weighted_sum_range finalScores_scores(1) [of intel] by simp

theorem completeness_is_weighted_sum_witness:
  "distinct (map platform (platforms_found example_intel))
   \<and> site_live example_intel \<and> platform_found example_intel
   \<and> \<not> mention_found example_intel \<and> opportunity_found example_intel
   \<and> contact_found example_intel \<and> two_distinct_platforms example_intel
   \<and> calculateCompleteness example_intel = 85
   \<and> ComprehensiveIntelligence.completenessScore (finalScores example_intel) = 85"
  using completeness_is_weighted_sum [of example_intel]
  by (simp add: example_intel_def platforms_found_def weighted_sum_def site_live_def
        platform_found_def mention_found_def opportunity_found_def contact_found_def
        two_distinct_platforms_def)

section \<open>Confidence score\<close>







section \<open>Rounding\<close>










section \<open>Reliability rows after an event\<close>

lemma find_map_if:
  assumes "\<And>c. P c \<Longrightarrow> P (f c)"
  shows "find P (map (\<lambda>c. if P c then f c else c) xs) = map_option f (find P xs)"
  using assms by (induction xs) auto

lemma find_append_new:
  "find P xs = None \<Longrightarrow> P y \<Longrightarrow> find P (xs @ [y]) = Some y"
  by (induction xs) (auto split: if_splits)

lemma findUnique_create [simp]:
  "sourceConfig_findUnique name (evolutionLog_create e db) = sourceConfig_findUnique name db"
  by (simp add: sourceConfig_findUnique_def evolutionLog_create_def)

lemma update_existing:
  assumes "sourceConfig_findUnique name db = Some c"
  shows "sourceConfig_findUnique name (updateSourceMetrics fl now name success d q db) =
    Some (c\<lparr>successRate :=
              (if success
               then min 100 (fl (successRate c + fl (fl (100 - successRate c) * fl (1 / 10))))
               else max 0 (fl (successRate c - 10))),
            avgDurationMs :=
              (if success \<and> d > 0
               then Math_round (fl (fl (real_of_int (avgDurationMs c) + real_of_int d) / 2))
               else avgDurationMs c),
            avgQualityScore :=
              (if success \<and> q > 0 then fl (fl (avgQualityScore c + q) / 2)
               else avgQualityScore c),
            isEnabled :=
              ((if success
                then min 100 (fl (successRate c + fl (fl (100 - successRate c) * fl (1 / 10))))
                else max 0 (fl (successRate c - 10))) > 20),
            lastUsed := Some now,
            currentDailyUsage := currentDailyUsage c + 1\<rparr>)"
proof -
  have "find (\<lambda>c. sourceName c = name) (sourceConfig db) = Some c"
    using assms by (simp add: sourceConfig_findUnique_def)
  then show ?thesis
    unfolding updateSourceMetrics_def sourceConfig_findUnique_def
    by (simp add: find_map_if Let_def)
qed

lemma update_missing:
  assumes "sourceConfig_findUnique name db = None"
  shows "sourceConfig_findUnique name (updateSourceMetrics fl now name success d q db) =
    Some \<lparr>sourceName = name, isEnabled = True, priority = 5,
                 successRate = (if success then 100 else 0),
                 avgDurationMs = (if d = 0 then 0 else d),
                 avgQualityScore = (if q = 0 then 50 else q),
                 requestsPerMinute = 10, delayBetweenMs = 6000, dailyLimit = 500,
                 currentDailyUsage = 0, lastUsed = Some now\<rparr>"
proof -
  have "find (\<lambda>c. sourceName c = name) (sourceConfig db) = None"
    using assms by (simp add: sourceConfig_findUnique_def)
  then show ?thesis
    unfolding updateSourceMetrics_def sourceConfig_findUnique_def
    by (simp add: find_append_new)
qed

lemma success_row:
  assumes "sourceConfig_findUnique src db = Some c"
  shows "sourceConfig_findUnique src (logSourceSuccess fl now src d q ind db) =
    Some (c\<lparr>successRate :=
              min 100 (fl (successRate c + fl (fl (100 - successRate c) * fl (1 / 10)))),
            avgDurationMs :=
              (if d > 0
               then Math_round (fl (fl (real_of_int (avgDurationMs c) + real_of_int d) / 2))
               else avgDurationMs c),
            avgQualityScore :=
              (if q > 0 then fl (fl (avgQualityScore c + q) / 2) else avgQualityScore c),
            isEnabled :=
              (min 100 (fl (successRate c + fl (fl (100 - successRate c) * fl (1 / 10)))) > 20),
            lastUsed := Some now,
            currentDailyUsage := currentDailyUsage c + 1\<rparr>)"
  using assms by (simp add: logSourceSuccess_def update_existing)

lemma failure_row:
  assumes "sourceConfig_findUnique src db = Some c"
  shows "sourceConfig_findUnique src (logSourceFailure fl now src code msg retries fb db) =
    Some (c\<lparr>successRate := max 0 (fl (successRate c - 10)),
            avgDurationMs := avgDurationMs c,
            avgQualityScore := avgQualityScore c,
            isEnabled := (max 0 (fl (successRate c - 10)) > 20),
            lastUsed := Some now,
            currentDailyUsage := currentDailyUsage c + 1\<rparr>)"
  using assms by (simp add: logSourceFailure_def update_existing)











lemma exa_rate [simp]: "successRate (exa_row x) = x"
  by (simp add: exa_row_def)


text \<open>
  C5 (as amended). After every update of an existing reliability row the enabled flag is
  true exactly when the just-updated success rate is strictly greater than 20, whatever
  the rounding of the arithmetic. A row created lazily on the first event of a source is
  enabled whatever that event was: the rate is 100 after a first success and 0 after a
  first failure.
\<close>

theorem enabled_after_update:
  "(\<forall>c. sourceConfig_findUnique name db = Some c \<longrightarrow>
      (\<exists>c'. sourceConfig_findUnique name (updateSourceMetrics fl now name success d q db)
              = Some c'
         \<and> successRate c' =
             (if success
              then min 100 (fl (successRate c + fl (fl (100 - successRate c) * fl (1 / 10))))
              else max 0 (fl (successRate c - 10)))
         \<and> isEnabled c' = (successRate c' > 20)))
   \<and> (sourceConfig_findUnique name db = None \<longrightarrow>
      (\<exists>c'. sourceConfig_findUnique name (updateSourceMetrics fl now name success d q db)
              = Some c'
         \<and> successRate c' = (if success then 100 else 0)
         \<and> isEnabled c'))"
  by (auto simp: update_existing update_missing)

theorem enabled_after_update_witness:
  "sourceConfig_findUnique ''exa'' (exa_db 25) = Some (exa_row 25)
   \<and> successRate_of ''exa'' (updateSourceMetrics exact 1 ''exa'' False 0 0 (exa_db 25)) = Some 15
   \<and> map_option isEnabled
        (sourceConfig_findUnique ''exa'' (updateSourceMetrics exact 1 ''exa'' False 0 0 (exa_db 25)))
      = Some False
   \<and> sourceConfig_findUnique ''exa'' empty_db = None
   \<and> successRate_of ''exa'' (updateSourceMetrics exact 1 ''exa'' True 120 70 empty_db) = Some 100
   \<and> map_option isEnabled
        (sourceConfig_findUnique ''exa'' (updateSourceMetrics exact 1 ''exa'' True 120 70 empty_db))
      = Some True"
  using enabled_after_update [where fl=exact and name="''exa''" and db="exa_db 25" and now=1
      and success=False and d=0 and q=0]
    enabled_after_update [where fl=exact and name="''exa''" and db=empty_db and now=1
      and success=True and d=120 and q=70]
  by (simp add: exa_db_def exa_row_def empty_db_def sourceConfig_findUnique_def
        updateSourceMetrics_def successRate_of_def Let_def exact_def [abs_def])

text \<open>
  The first event logged for a source being a failure, the row is created with success
  rate 0 and enabled.
\<close>

theorem first_failure_enabled_counterexample:
  "sourceConfig_findUnique ''exa'' empty_db = None
   \<and> successRate_of ''exa''
        (logSourceFailure exact 1 ''exa'' ''TIMEOUT'' ''timed out'' None None empty_db) = Some 0
   \<and> map_option isEnabled
        (sourceConfig_findUnique ''exa''
           (logSourceFailure exact 1 ''exa'' ''TIMEOUT'' ''timed out'' None None empty_db))
      = Some True"
  by (simp add: empty_db_def sourceConfig_findUnique_def logSourceFailure_def
        updateSourceMetrics_def evolutionLog_create_def new_event_def successRate_of_def
        exact_def [abs_def])

text \<open>
  C9 (as amended). For a source that has a row, a success event with a duration above 0
  sets avgDurationMs to round((avgDurationMs + durationMs) / 2) and leaves it unchanged
  otherwise; a success event with a quality score above 0 sets avgQualityScore to
  (avgQualityScore + qualityScore) / 2 and leaves it unchanged otherwise; a failure
  event leaves both averages unchanged. The sum and the half are each rounded by
  \<open>fl\<close>; in exact arithmetic they are the formulas as written.
\<close>

theorem averages_after_event:
  assumes "sourceConfig_findUnique src db = Some c"
  shows "(\<exists>c'. sourceConfig_findUnique src (logSourceSuccess fl now src d q ind db) = Some c'
           \<and> avgDurationMs c' =
               (if d > 0
                then Math_round (fl (fl (real_of_int (avgDurationMs c) + real_of_int d) / 2))
                else avgDurationMs c)
           \<and> avgQualityScore c' =
               (if q > 0 then fl (fl (avgQualityScore c + q) / 2) else avgQualityScore c))
       \<and> (\<exists>c'. sourceConfig_findUnique src (logSourceFailure fl now src code msg retries fb db)
                  = Some c'
           \<and> avgDurationMs c' = avgDurationMs c
           \<and> avgQualityScore c' = avgQualityScore c)"
  by (simp add: success_row [OF assms] failure_row [OF assms])

theorem averages_after_event_witness:
  "sourceConfig_findUnique ''exa'' (exa_db 80) = Some (exa_row 80)
   \<and> map_option avgDurationMs
        (sourceConfig_findUnique ''exa'' (logSourceSuccess exact 1 ''exa'' 121 70 None (exa_db 80)))
      = Some 111
   \<and> map_option avgQualityScore
        (sourceConfig_findUnique ''exa'' (logSourceSuccess exact 1 ''exa'' 121 70 None (exa_db 80)))
      = Some 65
   \<and> map_option avgDurationMs
        (sourceConfig_findUnique ''exa''
           (logSourceFailure exact 1 ''exa'' ''TIMEOUT'' ''timed out'' None None (exa_db 80)))
      = Some 100
   \<and> map_option avgQualityScore
        (sourceConfig_findUnique ''exa''
           (logSourceFailure exact 1 ''exa'' ''TIMEOUT'' ''timed out'' None None (exa_db 80)))
      = Some 60"
  using averages_after_event [where fl=exact and src="''exa''" and db="exa_db 80" and now=1
      and d=121 and q=70 and ind=None and code="''TIMEOUT''" and msg="''timed out''" and retries=None and fb=None]
  by (simp add: exa_db_def exa_row_def empty_db_def sourceConfig_findUnique_def
        logSourceSuccess_def logSourceFailure_def updateSourceMetrics_def
        evolutionLog_create_def new_event_def Let_def Math_round_def exact_def [abs_def])

text \<open>
  A success event of duration 0 and quality 0 on a row with averages 100 and 60 leaves
  both as they were; the two-point averages would be 50 and 30.
\<close>

theorem zero_duration_success_counterexample:
  "map_option avgDurationMs (sourceConfig_findUnique ''exa'' (exa_db 80)) = Some 100
   \<and> map_option avgQualityScore (sourceConfig_findUnique ''exa'' (exa_db 80)) = Some 60
   \<and> map_option avgDurationMs
        (sourceConfig_findUnique ''exa'' (logSourceSuccess exact 1 ''exa'' 0 0 None (exa_db 80)))
      = Some 100
   \<and> map_option avgQualityScore
        (sourceConfig_findUnique ''exa'' (logSourceSuccess exact 1 ''exa'' 0 0 None (exa_db 80)))
      = Some 60
   \<and> Math_round (real_of_int (100 + 0) / 2) = 50 \<and> ((60::real) + 0) / 2 = 30"
  by (simp add: exa_db_def exa_row_def empty_db_def sourceConfig_findUnique_def
        logSourceSuccess_def updateSourceMetrics_def evolutionLog_create_def new_event_def
        Let_def Math_round_def exact_def [abs_def])

section \<open>Learning insights\<close>

lemma foldl_add_int:
  fixes a :: int
  shows "foldl (\<lambda>sum p. sum + f p) a xs = a + sum_list (map f xs)"
  by (induction xs arbitrary: a) (simp_all add: add.assoc)











lemma generateRecommendations_keeps:
  "qualityTrend (generateRecommendations i) = qualityTrend i"
  "avgProcessingTime (generateRecommendations i) = avgProcessingTime i"
  by (simp_all add: generateRecommendations_def Let_def)

lemma analyzeQualityTrend_keeps:
  "avgProcessingTime (analyzeQualityTrend fl recent i) = avgProcessingTime i"
  "recommendations (analyzeQualityTrend fl recent i) = recommendations i"
  by (simp_all add: analyzeQualityTrend_def Let_def)

lemma averageProcessingTime_keeps:
  "qualityTrend (averageProcessingTime recent i) = qualityTrend i"
  "recommendations (averageProcessingTime recent i) = recommendations i"
  by (simp_all add: averageProcessingTime_def Let_def)

lemma rankSources_keeps:
  "qualityTrend (rankSources db i) = qualityTrend i"
  "avgProcessingTime (rankSources db i) = avgProcessingTime i"
  "recommendations (rankSources db i) = recommendations i"
  by (simp_all add: rankSources_def Let_def)







lemma avgProcessingTime_insights:
  "avgProcessingTime (analyzeLearningInsights fl db) =
     (if length (recentLogs db) > 0
      then Math_round (real_of_int (foldl (\<lambda>sum log. sum + duration_or_0 log) 0 (recentLogs db))
             / real (length (recentLogs db)) / 1000)
      else 0)"
  unfolding analyzeLearningInsights_def Let_def generateRecommendations_keeps
    analyzeQualityTrend_keeps
  by (simp add: averageProcessingTime_def rankSources_keeps)

lemma advice_generateRecommendations:
  "processing_time_advice \<notin> set (recommendations i) \<Longrightarrow>
   processing_time_advice \<in> set (recommendations (generateRecommendations i))
     = (avgProcessingTime i > 300)"
  by (simp add: generateRecommendations_def Let_def processing_time_advice_def)

lemma advice_iff:
  "processing_time_advice \<in> set (recommendations (analyzeLearningInsights fl db))
     = (avgProcessingTime (analyzeLearningInsights fl db) > 300)"
proof -
  let ?i = "analyzeQualityTrend fl (recentLogs db) (averageProcessingTime (recentLogs db)
     (rankSources db \<lparr>topSources = [], problematicSources = [], avgProcessingTime = 0,
                       qualityTrend = stable, recommendations = []\<rparr>))"
  have "recommendations ?i = []"
    by (simp add: analyzeQualityTrend_keeps averageProcessingTime_keeps rankSources_keeps)
  then have "processing_time_advice \<notin> set (recommendations ?i)" by simp
  from advice_generateRecommendations [OF this]
  show ?thesis
    by (simp add: analyzeLearningInsights_def Let_def generateRecommendations_keeps)
qed



lemma completeness_values_list:
  "completeness_values =
     [0, 5, 10, 15, 20, 25, 30, 35, 40, 45, 50, 55, 60, 65, 70, 75, 80, 85, 90, 95, 100]"
  by (simp add: completeness_values_def upt_rec)

text \<open>The completeness score of the fuser is one of these values.\<close>

lemma calculateCompleteness_value:
  "real_of_int (calculateCompleteness intel) \<in> set completeness_values"
  by (simp add: calculateCompleteness_def Let_def weights_def completeness_values_list)










lemma evolutionLog_updateSourceMetrics [simp]:
  "evolutionLog (updateSourceMetrics fl now name success d q db) = evolutionLog db"
  by (simp add: updateSourceMetrics_def Let_def split: option.splits)

lemma completion_events_engine_call:
  "completion_events (engine_call fl c db) =
     completion_events db @
       (case c of
          LogComplete now cid k used failed gs \<Rightarrow>
            [(new_event RESEARCH_COMPLETE now)\<lparr>EvolutionLog.companyId := Some cid,
               EvolutionLog.completenessScore := Some k, sourcesUsed := used,
               sourcesFailed := failed, gaps := gs\<rparr>]
        | _ \<Rightarrow> [])"
  by (cases c)
     (simp_all add: completion_events_def logSourceSuccess_def logSourceFailure_def
        logResearchComplete_def evolutionLog_create_def new_event_def)

lemma no_completion_duration_engine_call:
  "no_completion_duration db \<Longrightarrow> no_completion_duration (engine_call fl c db)"
  by (cases c)
     (simp_all add: no_completion_duration_def completion_events_engine_call new_event_def
        del: engine_call.simps)

lemma no_completion_duration_engine_calls:
  "no_completion_duration db \<Longrightarrow> no_completion_duration (engine_calls fl cs db)"
  by (induction cs arbitrary: db) (simp_all add: no_completion_duration_engine_call)

lemma set_recentLogs: "set (recentLogs db) \<subseteq> set (completion_events db)"
proof -
  have "set (recentLogs db) \<subseteq> set (sort_key (\<lambda>e. - timestamp e) (completion_events db))"
    unfolding recentLogs_def completion_events_def by (rule set_take_subset)
  then show ?thesis by simp
qed

lemma sum_list_all_zero:
  fixes f :: "'a \<Rightarrow> int"
  shows "\<forall>x\<in>set xs. f x = 0 \<Longrightarrow> sum_list (map f xs) = 0"
  by (induction xs) simp_all

lemma total_duration_zero:
  assumes "no_completion_duration db"
  shows "foldl (\<lambda>sum log. sum + duration_or_0 log) 0 (recentLogs db) = 0"
proof -
  have "\<forall>e\<in>set (recentLogs db). duration_or_0 e = 0"
    using assms set_recentLogs [of db]
    by (auto simp: no_completion_duration_def list_all_iff duration_or_0_def)
  then have "sum_list (map duration_or_0 (recentLogs db)) = 0"
    by (rule sum_list_all_zero)
  then show ?thesis by (simp add: foldl_add_int)
qed

lemma avgProcessingTime_zero:
  assumes "no_completion_duration db"
  shows "avgProcessingTime (analyzeLearningInsights fl db) = 0"
  by (simp add: avgProcessingTime_insights total_duration_zero [OF assms] Math_round_def)

text \<open>
  C10. logResearchComplete appends an event without a duration. Hence, when no
  completion event of the log carries a duration (as in an empty log), after any
  sequence of logSourceSuccess, logSourceFailure and logResearchComplete calls the
  average processing time reported by analyzeLearningInsights is 0 and the
  recommendation about a high processing time is not produced.
\<close>

theorem completion_events_carry_no_duration:
  assumes "no_completion_duration db"
  shows "map durationMs (evolutionLog (logResearchComplete now cid k used failed gs db))
           = map durationMs (evolutionLog db) @ [None]
       \<and> no_completion_duration (engine_calls fl cs db)
       \<and> avgProcessingTime (analyzeLearningInsights fl (engine_calls fl cs db)) = 0
       \<and> processing_time_advice \<notin>
           set (recommendations (analyzeLearningInsights fl (engine_calls fl cs db)))"
proof -
  have inv: "no_completion_duration (engine_calls fl cs db)"
    by (rule no_completion_duration_engine_calls [OF assms])
  have ev: "map durationMs (evolutionLog (logResearchComplete now cid k used failed gs db))
           = map durationMs (evolutionLog db) @ [None]"
    by (simp add: logResearchComplete_def evolutionLog_create_def new_event_def)
  show ?thesis
    using inv ev avgProcessingTime_zero [OF inv] by (simp add: advice_iff)
qed

theorem completion_events_carry_no_duration_witness:
  "no_completion_duration empty_db
   \<and> length (completion_events (engine_calls exact mixed_history empty_db)) = 2
   \<and> avgProcessingTime (analyzeLearningInsights exact (engine_calls exact mixed_history empty_db))
       = 0
   \<and> processing_time_advice \<notin>
       set (recommendations
         (analyzeLearningInsights exact (engine_calls exact mixed_history empty_db)))"
  using completion_events_carry_no_duration [of empty_db _ _ _ _ _ _ exact mixed_history]
  by (simp add: no_completion_duration_def completion_events_def empty_db_def mixed_history_def
       logSourceSuccess_def logSourceFailure_def logResearchComplete_def evolutionLog_create_def
       new_event_def)

section \<open>Database calls and the cancel route\<close>

lemma and_then_simps [simp]:
  "and_then (Inl e, db) f = (Inl e, db)"
  "and_then (Inr a, db) f = f a db"
  by (simp_all add: and_then_def)

lemma attempt_simps:
  "db_error env call = Some m \<Longrightarrow> attempt env call step db = (Inl m, db)"
  "db_error env call = None \<Longrightarrow> attempt env call step db = step db"
  by (simp_all add: attempt_def)

lemma job_update_Some:
  "researchJob db jid = Some j \<Longrightarrow>
   prisma_researchJob_update jid f db = (Inr (), db\<lparr>researchJob := (researchJob db)(jid \<mapsto> f j)\<rparr>)"
  by (simp add: prisma_researchJob_update_def)

lemma co_update_Some:
  "company db cid = Some c \<Longrightarrow>
   prisma_company_update cid f db = (Inr (), db\<lparr>company := (company db)(cid \<mapsto> f c)\<rparr>)"
  by (simp add: prisma_company_update_def)


text \<open>
  C6. For a job of the calling user whose company row exists, the cancel operation
  succeeds exactly when the job's status is PENDING, QUEUED or RUNNING; it then sets the
  job to CANCELLED and the company's mirrored status back to PENDING, and changes
  nothing else. On a COMPLETED, FAILED or CANCELLED job it answers 400 with an error and
  leaves the database as it was.
\<close>

theorem cancel_iff_active:
  assumes "researchJob db jid = Some job" and "ResearchJob.userId job = uid"
    and "company db (ResearchJob.companyId job) = Some co"
  shows "(fst (fst (cancel uid jid db)) = 200) =
           (ResearchJob.status job \<in> {JobStatus.PENDING, JobStatus.QUEUED, JobStatus.RUNNING})
       \<and> (ResearchJob.status job \<in> {JobStatus.PENDING, JobStatus.QUEUED, JobStatus.RUNNING} \<longrightarrow>
            cancel uid jid db =
              ((200, ''success''),
               db\<lparr>researchJob := (researchJob db)
                     (jid \<mapsto> job\<lparr>ResearchJob.status := JobStatus.CANCELLED\<rparr>),
                  company := (company db)
                     (ResearchJob.companyId job \<mapsto> co\<lparr>Company.status := CompanyStatus.PENDING\<rparr>)\<rparr>))
       \<and> (ResearchJob.status job \<in> {JobStatus.COMPLETED, JobStatus.FAILED, JobStatus.CANCELLED} \<longrightarrow>
            cancel uid jid db = ((400, ''Job cannot be cancelled''), db))"
  using assms
  by (cases "ResearchJob.status job")
     (simp_all add: cancel_def prisma_researchJob_findFirst_def job_update_Some
        co_update_Some)

lemma running_db_rows [simp]:
  "researchJob running_db ''j1'' = Some (job1\<lparr>ResearchJob.status := JobStatus.RUNNING\<rparr>)"
  "company running_db ''c1'' = Some (acme\<lparr>Company.status := CompanyStatus.RESEARCHING\<rparr>)"
  by (simp_all add: running_db_def empty_db_def)

theorem cancel_iff_active_witness:
  "job_status ''j1'' running_db = Some JobStatus.RUNNING
   \<and> fst (cancel ''u1'' ''j1'' running_db) = (200, ''success'')
   \<and> job_status ''j1'' (snd (cancel ''u1'' ''j1'' running_db)) = Some JobStatus.CANCELLED
   \<and> company_status ''c1'' (snd (cancel ''u1'' ''j1'' running_db)) = Some CompanyStatus.PENDING
   \<and> cancel ''u1'' ''j1'' (snd (cancel ''u1'' ''j1'' running_db)) =
       ((400, ''Job cannot be cancelled''), snd (cancel ''u1'' ''j1'' running_db))"
proof -
  let ?job = "job1\<lparr>ResearchJob.status := JobStatus.RUNNING\<rparr>"
  let ?co = "acme\<lparr>Company.status := CompanyStatus.RESEARCHING\<rparr>"
  let ?db = "snd (cancel ''u1'' ''j1'' running_db)"
  have u: "ResearchJob.userId ?job = ''u1''" "ResearchJob.companyId ?job = ''c1''"
    by (simp_all add: job1_def)
  have first: "cancel ''u1'' ''j1'' running_db =
      ((200, ''success''),
       running_db\<lparr>researchJob := (researchJob running_db)
             (''j1'' \<mapsto> ?job\<lparr>ResearchJob.status := JobStatus.CANCELLED\<rparr>),
          company := (company running_db)
             (''c1'' \<mapsto> ?co\<lparr>Company.status := CompanyStatus.PENDING\<rparr>)\<rparr>)"
    using cancel_iff_active [of running_db "''j1''" ?job "''u1''" ?co] u by simp
  have j: "researchJob ?db ''j1'' = Some (?job\<lparr>ResearchJob.status := JobStatus.CANCELLED\<rparr>)"
    and c: "company ?db ''c1'' = Some (?co\<lparr>Company.status := CompanyStatus.PENDING\<rparr>)"
    by (simp_all add: first)
  have second: "cancel ''u1'' ''j1'' ?db = ((400, ''Job cannot be cancelled''), ?db)"
    using cancel_iff_active [of ?db "''j1''" "?job\<lparr>ResearchJob.status := JobStatus.CANCELLED\<rparr>"
        "''u1''" "?co\<lparr>Company.status := CompanyStatus.PENDING\<rparr>"] j c u
    by simp
  show ?thesis
    using second j c by (simp add: first job_status_def company_status_def)
qed

section \<open>What a run of executeResearch writes\<close>

lemma engine_untouched_refl [simp]: "engine_untouched db db"
  by (simp add: engine_untouched_def)

lemma engine_untouched_trans:
  "engine_untouched a b \<Longrightarrow> engine_untouched b c \<Longrightarrow> engine_untouched a c"
  by (simp add: engine_untouched_def)

lemma only_jobs_written_refl [simp]: "only_jobs_written db db"
  by (simp add: only_jobs_written_def)

lemma only_jobs_written_trans:
  "only_jobs_written a b \<Longrightarrow> only_jobs_written b c \<Longrightarrow> only_jobs_written a c"
  by (simp add: only_jobs_written_def)

lemma job_update_engine: "engine_untouched db (snd (prisma_researchJob_update jid f db))"
  by (simp add: prisma_researchJob_update_def engine_untouched_def split: option.splits)

lemma co_update_engine: "engine_untouched db (snd (prisma_company_update cid f db))"
  by (simp add: prisma_company_update_def engine_untouched_def split: option.splits)

lemma upsert_engine: "engine_untouched db (snd (prisma_researchResult_upsert cid c u db))"
  by (simp add: prisma_researchResult_upsert_def engine_untouched_def)

lemma attempt_engine:
  "engine_untouched db (snd (step db)) \<Longrightarrow> engine_untouched db (snd (attempt env call step db))"
  by (simp add: attempt_def split: option.splits)

lemma and_then_engine:
  assumes "engine_untouched db (snd m)"
    and "\<And>a d. engine_untouched d (snd (f a d))"
  shows "engine_untouched db (snd (and_then m f))"
proof (cases m)
  case (Pair r d)
  show ?thesis
  proof (cases r)
    case (Inl e)
    with Pair assms(1) show ?thesis by simp
  next
    case (Inr a)
    with Pair assms(1) assms(2) [of d a] show ?thesis
      by (auto intro: engine_untouched_trans)
  qed
qed

lemma job_update_only_jobs:
  assumes "\<And>j. ResearchJob.status (f j) = ResearchJob.status j"
  shows "only_jobs_written db (snd (prisma_researchJob_update jid f db))"
  using assms
  by (auto simp: prisma_researchJob_update_def only_jobs_written_def job_status_def
      split: option.splits)

lemma progress_engine: "engine_untouched db (updateJobProgress env jid p f db)"
  unfolding updateJobProgress_def by (intro attempt_engine job_update_engine)

lemma progress_only_jobs:
  assumes "\<And>j. ResearchJob.status (f j) = ResearchJob.status j"
  shows "only_jobs_written db (updateJobProgress env jid p f db)"
  unfolding updateJobProgress_def
  by (simp add: attempt_def job_update_only_jobs assms split: option.splits)

lemma progress_twice_engine:
  "engine_untouched db (updateJobProgress env jid q g (updateJobProgress env jid p f db))"
  by (rule engine_untouched_trans [OF progress_engine progress_engine])

lemma progress_twice_only_jobs:
  assumes "\<And>j. ResearchJob.status (f j) = ResearchJob.status j"
    and "\<And>j. ResearchJob.status (g j) = ResearchJob.status j"
  shows "only_jobs_written db
           (updateJobProgress env jid q g (updateJobProgress env jid p f db))"
  by (rule only_jobs_written_trans [OF progress_only_jobs progress_only_jobs])
     (simp_all add: assms)

lemma and_then_only_jobs:
  assumes "only_jobs_written db (snd m)"
    and "\<And>a d. only_jobs_written d (snd (f a d))"
  shows "only_jobs_written db (snd (and_then m f))"
proof (cases m)
  case (Pair r d)
  show ?thesis
  proof (cases r)
    case (Inl e)
    with Pair assms(1) show ?thesis by simp
  next
    case (Inr a)
    with Pair assms(1) assms(2) [of d a] show ?thesis
      by (auto intro: only_jobs_written_trans)
  qed
qed

lemma stage_website_frame:
  "engine_untouched db (snd (stage_website env jid co intel db))"
  "only_jobs_written db (snd (stage_website env jid co intel db))"
  "fst (stage_website env jid co intel db) = website_call env co intel"
  by (auto simp: stage_website_def website_call_def Let_def
        progress_engine progress_only_jobs progress_twice_engine progress_twice_only_jobs
      split: option.splits sum.splits)

lemma stage_social_frame:
  "engine_untouched db (snd (stage_social env jid co intel db))"
  "only_jobs_written db (snd (stage_social env jid co intel db))"
  "fst (stage_social env jid co intel db) = social_call env co intel"
  by (auto simp: stage_social_def social_call_def Let_def
        progress_engine progress_only_jobs progress_twice_engine progress_twice_only_jobs
      split: option.splits sum.splits)

lemma stage_news_frame:
  "engine_untouched db (snd (stage_news env jid co intel db))"
  "only_jobs_written db (snd (stage_news env jid co intel db))"
  "fst (stage_news env jid co intel db) = news_call env co intel"
  by (auto simp: stage_news_def news_call_def Let_def
        progress_engine progress_only_jobs progress_twice_engine progress_twice_only_jobs
      split: option.splits sum.splits)

lemma stage_business_frame:
  "engine_untouched db (snd (stage_business env jid co intel db))"
  "only_jobs_written db (snd (stage_business env jid co intel db))"
  "fst (stage_business env jid co intel db) = business_call env co intel"
  by (auto simp: stage_business_def business_call_def Let_def
        progress_engine progress_only_jobs progress_twice_engine progress_twice_only_jobs
      split: option.splits sum.splits)

lemma fst_and_then:
  "fst (and_then m f) = (case fst m of Inl e \<Rightarrow> Inl e | Inr a \<Rightarrow> fst (f a (snd m)))"
  by (cases m) (auto simp: and_then_def split: sum.splits)

lemma runStages_frame:
  "engine_untouched db (snd (runStages env jid co intel db))"
  "only_jobs_written db (snd (runStages env jid co intel db))"
  "fst (runStages env jid co intel db) = collaborator_results env co intel"
proof -
  show "engine_untouched db (snd (runStages env jid co intel db))"
    unfolding runStages_def
    by (intro and_then_engine stage_website_frame stage_social_frame stage_news_frame
          stage_business_frame)
  show "only_jobs_written db (snd (runStages env jid co intel db))"
    unfolding runStages_def
    by (intro and_then_only_jobs stage_website_frame stage_social_frame stage_news_frame
          stage_business_frame)
  show "fst (runStages env jid co intel db) = collaborator_results env co intel"
    unfolding runStages_def collaborator_results_def
    by (simp add: fst_and_then stage_website_frame stage_social_frame stage_news_frame
          stage_business_frame split: sum.splits)
qed

lemma saveAndComplete_engine:
  "engine_untouched db (snd (saveAndComplete env jid cid intel db))"
  unfolding saveAndComplete_def
  by (intro and_then_engine attempt_engine upsert_engine job_update_engine co_update_engine) simp

lemma tryBlock_engine: "engine_untouched db (snd (tryBlock env jid cid co intel db))"
  unfolding tryBlock_def
  by (intro and_then_engine runStages_frame saveAndComplete_engine)

lemma catchBlock_engine: "engine_untouched db (snd (catchBlock env jid cid e db))"
  unfolding catchBlock_def
  by (intro and_then_engine attempt_engine job_update_engine co_update_engine) simp

lemma executeResearch_engine:
  "engine_untouched db (snd (executeResearch env jid db))"
proof -
  have inner: "engine_untouched d
      (snd (case tryBlock env jid cid co intel d of
              (Inr i, d') \<Rightarrow> (Inr i, d')
            | (Inl e, d') \<Rightarrow> catchBlock env jid cid e d'))" for d cid co intel
  proof (cases "tryBlock env jid cid co intel d")
    case (Pair r d')
    have t: "engine_untouched d d'"
      using tryBlock_engine [of d env jid cid co intel] Pair by simp
    show ?thesis
    proof (cases r)
      case (Inl e)
      with Pair t catchBlock_engine [of d' env jid cid e] show ?thesis
        by (auto intro: engine_untouched_trans)
    next
      case (Inr i)
      with Pair t show ?thesis by simp
    qed
  qed
  show ?thesis
    unfolding executeResearch_def Let_def
    by (auto split: option.splits
        intro!: and_then_engine attempt_engine job_update_engine co_update_engine inner)
qed

lemma catchBlock_marks:
  assumes "researchJob d jid = Some j" and "company d cid = Some c"
    and "db_error env MarkJobFailed = None" and "db_error env MarkCompanyFailed = None"
  shows "fst (catchBlock env jid cid e d) = Inl e
       \<and> marked_failed jid cid e (snd (catchBlock env jid cid e d))
       \<and> researchResult (snd (catchBlock env jid cid e d)) = researchResult d"
  using assms
  by (simp add: catchBlock_def attempt_simps prisma_researchJob_update_def
        prisma_company_update_def marked_failed_def)

lemma saveAndComplete_cases:
  assumes "researchJob d jid = Some j" and "company d cid = Some c"
  shows "saveAndComplete env jid cid intel d =
     (case db_error env UpsertResult of
        Some m \<Rightarrow> (Inl m, d)
      | None \<Rightarrow>
     (case db_error env MarkJobCompleted of
        Some m \<Rightarrow>
          (Inl m, d\<lparr>researchResult := (researchResult d)(cid \<mapsto> upserted env cid intel d)\<rparr>)
      | None \<Rightarrow>
     (case db_error env MarkCompanyCompleted of
        Some m \<Rightarrow>
          (Inl m, d\<lparr>researchResult := (researchResult d)(cid \<mapsto> upserted env cid intel d),
                    researchJob := (researchJob d)
                      (jid \<mapsto> j\<lparr>ResearchJob.status := JobStatus.COMPLETED,
                                completedAt := Some (clock env)\<rparr>)\<rparr>)
      | None \<Rightarrow>
          (Inr intel,
           d\<lparr>researchResult := (researchResult d)(cid \<mapsto> upserted env cid intel d),
             researchJob := (researchJob d)
               (jid \<mapsto> j\<lparr>ResearchJob.status := JobStatus.COMPLETED,
                         completedAt := Some (clock env)\<rparr>),
             company := (company d)
               (cid \<mapsto> c\<lparr>Company.status := CompanyStatus.COMPLETED\<rparr>)\<rparr>))))"
  using assms
  by (simp add: saveAndComplete_def attempt_def prisma_researchResult_upsert_def
        prisma_researchJob_update_def prisma_company_update_def upserted_def
      split: option.splits)

lemma upserted_cong:
  "researchResult d = researchResult db \<Longrightarrow> upserted env cid intel d = upserted env cid intel db"
  by (simp add: upserted_def)

lemma executeResearch_guarded:
  assumes "db_error env LoadJob = None" and "researchJob db jid = Some job"
    and "company db (ResearchJob.companyId job) = Some co"
    and "db_error env MarkRunning = None" and "db_error env MarkResearching = None"
  shows "executeResearch env jid db =
     (case tryBlock env jid (ResearchJob.companyId job) co
             (initial_intel env (ResearchJob.companyId job) co)
             (db\<lparr>researchJob := (researchJob db)
                   (jid \<mapsto> job\<lparr>ResearchJob.status := JobStatus.RUNNING,
                              startedAt := Some (clock env)\<rparr>),
                 company := (company db)
                   (ResearchJob.companyId job \<mapsto>
                      co\<lparr>Company.status := CompanyStatus.RESEARCHING\<rparr>)\<rparr>) of
        (Inr intel, db') \<Rightarrow> (Inr intel, db')
      | (Inl e, db') \<Rightarrow> catchBlock env jid (ResearchJob.companyId job) e db')"
  using assms
  by (simp add: executeResearch_def Let_def attempt_simps prisma_researchJob_update_def
        prisma_company_update_def)


lemma executeResearch_lookup_rejected:
  assumes "db_error env LoadJob = Some m"
  shows "executeResearch env jid db = (Inl m, db)"
  using assms by (simp add: executeResearch_def)

lemma executeResearch_job_missing:
  assumes "db_error env LoadJob = None" and "researchJob db jid = None"
  shows "executeResearch env jid db = (Inl (''Job not found: '' @ jid), db)"
  using assms by (simp add: executeResearch_def)

lemma executeResearch_running_rejected:
  assumes "db_error env LoadJob = None" and "researchJob db jid = Some job"
    and "db_error env MarkRunning = Some m"
  shows "executeResearch env jid db = (Inl m, db)"
  using assms by (simp add: executeResearch_def Let_def attempt_simps)

lemma executeResearch_company_missing:
  assumes "db_error env LoadJob = None" and "researchJob db jid = Some job"
    and "db_error env MarkRunning = None"
    and "company db (ResearchJob.companyId job) = None"
  shows "fst (executeResearch env jid db) = Inl null_company_error
       \<and> job_status jid (snd (executeResearch env jid db)) = Some JobStatus.RUNNING
       \<and> company (snd (executeResearch env jid db)) = company db
       \<and> researchResult (snd (executeResearch env jid db)) = researchResult db"
  using assms
  by (simp add: executeResearch_def Let_def attempt_simps prisma_researchJob_update_def
        job_status_def)

lemma executeResearch_researching_rejected:
  assumes "db_error env LoadJob = None" and "researchJob db jid = Some job"
    and "company db (ResearchJob.companyId job) = Some co"
    and "db_error env MarkRunning = None" and "db_error env MarkResearching = Some m"
  shows "fst (executeResearch env jid db) = Inl m
       \<and> job_status jid (snd (executeResearch env jid db)) = Some JobStatus.RUNNING
       \<and> company (snd (executeResearch env jid db)) = company db"
  using assms
  by (simp add: executeResearch_def Let_def attempt_simps prisma_researchJob_update_def
        job_status_def)

lemma guarded_run_outcomes:
  assumes load: "db_error env LoadJob = None" "researchJob db jid = Some job"
    "company db (ResearchJob.companyId job) = Some co"
    and enter: "db_error env MarkRunning = None" "db_error env MarkResearching = None"
    and mark: "db_error env MarkJobFailed = None" "db_error env MarkCompanyFailed = None"
  shows
    "(case collaborator_results env co (initial_intel env (ResearchJob.companyId job) co) of
           Inl e \<Rightarrow>
             fst (executeResearch env jid db) = Inl e
             \<and> marked_failed jid (ResearchJob.companyId job) e (snd (executeResearch env jid db))
             \<and> researchResult (snd (executeResearch env jid db)) = researchResult db
         | Inr intel \<Rightarrow>
            (case db_error env UpsertResult of
               Some m \<Rightarrow>
                 fst (executeResearch env jid db) = Inl m
                 \<and> marked_failed jid (ResearchJob.companyId job) m
                     (snd (executeResearch env jid db))
                 \<and> researchResult (snd (executeResearch env jid db)) = researchResult db
             | None \<Rightarrow>
                 researchResult (snd (executeResearch env jid db)) =
                   (researchResult db)(ResearchJob.companyId job \<mapsto>
                      upserted env (ResearchJob.companyId job) (finalScores intel) db)
                 \<and> (case db_error env MarkJobCompleted of
                       Some m \<Rightarrow>
                         fst (executeResearch env jid db) = Inl m
                         \<and> marked_failed jid (ResearchJob.companyId job) m
                             (snd (executeResearch env jid db))
                     | None \<Rightarrow>
                    (case db_error env MarkCompanyCompleted of
                       Some m \<Rightarrow>
                         fst (executeResearch env jid db) = Inl m
                         \<and> marked_failed jid (ResearchJob.companyId job) m
                             (snd (executeResearch env jid db))
                     | None \<Rightarrow>
                         fst (executeResearch env jid db) = Inr (finalScores intel)
                         \<and> marked_completed jid (ResearchJob.companyId job)
                             (snd (executeResearch env jid db))))))"
proof -
  let ?cid = "ResearchJob.companyId job"
  let ?run = "executeResearch env jid db"
  let ?db1 = "db\<lparr>researchJob := (researchJob db)
                   (jid \<mapsto> job\<lparr>ResearchJob.status := JobStatus.RUNNING,
                              startedAt := Some (clock env)\<rparr>),
                 company := (company db)
                   (?cid \<mapsto> co\<lparr>Company.status := CompanyStatus.RESEARCHING\<rparr>)\<rparr>"
  let ?intel0 = "initial_intel env ?cid co"
  have run: "?run =
     (case tryBlock env jid ?cid co ?intel0 ?db1 of
        (Inr intel, db') \<Rightarrow> (Inr intel, db')
      | (Inl e, db') \<Rightarrow> catchBlock env jid ?cid e db')"
    by (rule executeResearch_guarded [OF load enter])
  obtain r2 db2 where stages: "runStages env jid co ?intel0 ?db1 = (r2, db2)"
    by (cases "runStages env jid co ?intel0 ?db1")
  have r2: "r2 = collaborator_results env co ?intel0"
    using runStages_frame(3) [of env jid co ?intel0 ?db1] stages by simp
  have frame: "only_jobs_written ?db1 db2"
    using runStages_frame(2) [of ?db1 env jid co ?intel0] stages by simp
  have co2: "company db2 ?cid = Some (co\<lparr>Company.status := CompanyStatus.RESEARCHING\<rparr>)"
    using frame by (simp add: only_jobs_written_def)
  have res2: "researchResult db2 = researchResult db"
    using frame by (simp add: only_jobs_written_def)
  have "job_status jid db2 = Some JobStatus.RUNNING"
    using frame by (simp add: only_jobs_written_def job_status_def)
  then obtain j2 where job2: "researchJob db2 jid = Some j2"
    by (auto simp: job_status_def)
  show ?thesis
  proof (cases r2)
    case (Inl e)
    have res: "collaborator_results env co ?intel0 = Inl e"
      using r2 Inl by simp
    have runeq: "?run = catchBlock env jid ?cid e db2"
      by (simp add: run tryBlock_def stages Inl)
    show ?thesis
      using catchBlock_marks [OF job2 co2 mark, of e] res2
      by (simp add: res runeq)
  next
    case (Inr intel)
    let ?f = "finalScores intel"
    have tb: "tryBlock env jid ?cid co ?intel0 ?db1 = saveAndComplete env jid ?cid ?f db2"
      by (simp add: tryBlock_def stages Inr)
    note sc = saveAndComplete_cases [OF job2 co2, of env ?f]
    note up = upserted_cong [OF res2, of env ?cid ?f]
    have res: "collaborator_results env co ?intel0 = Inr intel"
      using r2 Inr by simp
    show ?thesis
    proof (cases "db_error env UpsertResult")
      case (Some m)
      have runeq: "?run = catchBlock env jid ?cid m db2"
        by (simp add: run tb sc Some)
      show ?thesis
        using catchBlock_marks [OF job2 co2 mark, of m] res2
        by (simp add: res Some runeq)
    next
      case None
      note upsert_ok = None
      show ?thesis
      proof (cases "db_error env MarkJobCompleted")
        case (Some m)
        let ?d = "db2\<lparr>researchResult := (researchResult db2)(?cid \<mapsto> upserted env ?cid ?f db2)\<rparr>"
        have runeq: "?run = catchBlock env jid ?cid m ?d"
          by (simp add: run tb sc Some upsert_ok)
        have jd: "researchJob ?d jid = Some j2"
          using job2 by simp
        have cd: "company ?d ?cid = Some (co\<lparr>Company.status := CompanyStatus.RESEARCHING\<rparr>)"
          using co2 by simp
        show ?thesis
          using catchBlock_marks [OF jd cd mark, of m] res2 up
          by (simp add: res Some upsert_ok runeq)
      next
        case None
        note job_ok = None
        show ?thesis
        proof (cases "db_error env MarkCompanyCompleted")
          case (Some m)
          let ?d = "db2\<lparr>researchResult := (researchResult db2)(?cid \<mapsto> upserted env ?cid ?f db2),
                  researchJob := (researchJob db2)
                    (jid \<mapsto> j2\<lparr>ResearchJob.status := JobStatus.COMPLETED,
                              completedAt := Some (clock env)\<rparr>)\<rparr>"
          have runeq: "?run = catchBlock env jid ?cid m ?d"
            by (simp add: run tb sc Some upsert_ok job_ok)
          have jd: "researchJob ?d jid = Some (j2\<lparr>ResearchJob.status := JobStatus.COMPLETED,
                              completedAt := Some (clock env)\<rparr>)"
            by simp
          have cd: "company ?d ?cid = Some (co\<lparr>Company.status := CompanyStatus.RESEARCHING\<rparr>)"
            using co2 by simp
          show ?thesis
            using catchBlock_marks [OF jd cd mark, of m] res2 up
            by (simp add: res Some upsert_ok job_ok runeq)
        next
          case None
          show ?thesis
            using res2 up
            by (simp add: run tb sc None upsert_ok job_ok res marked_completed_def)
        qed
      qed
    qed
  qed
qed

lemma guarded_run_completes:
  assumes load: "db_error env LoadJob = None" "researchJob db jid = Some job"
    "company db (ResearchJob.companyId job) = Some co"
    and enter: "db_error env MarkRunning = None" "db_error env MarkResearching = None"
    and stages_ok: "collaborator_results env co
        (initial_intel env (ResearchJob.companyId job) co) = Inr intel"
    and persist: "db_error env UpsertResult = None" "db_error env MarkJobCompleted = None"
      "db_error env MarkCompanyCompleted = None"
  shows "fst (executeResearch env jid db) = Inr (finalScores intel)
       \<and> marked_completed jid (ResearchJob.companyId job) (snd (executeResearch env jid db))
       \<and> researchResult (snd (executeResearch env jid db)) =
           (researchResult db)(ResearchJob.companyId job \<mapsto>
              upserted env (ResearchJob.companyId job) (finalScores intel) db)"
proof -
  let ?cid = "ResearchJob.companyId job"
  let ?db1 = "db\<lparr>researchJob := (researchJob db)
                   (jid \<mapsto> job\<lparr>ResearchJob.status := JobStatus.RUNNING,
                              startedAt := Some (clock env)\<rparr>),
                 company := (company db)
                   (?cid \<mapsto> co\<lparr>Company.status := CompanyStatus.RESEARCHING\<rparr>)\<rparr>"
  let ?intel0 = "initial_intel env ?cid co"
  obtain r2 db2 where stages: "runStages env jid co ?intel0 ?db1 = (r2, db2)"
    by (cases "runStages env jid co ?intel0 ?db1")
  have r2: "r2 = Inr intel"
    using runStages_frame(3) [of env jid co ?intel0 ?db1] stages stages_ok by simp
  have frame: "only_jobs_written ?db1 db2"
    using runStages_frame(2) [of ?db1 env jid co ?intel0] stages by simp
  have "job_status jid db2 = Some JobStatus.RUNNING"
    using frame by (simp add: only_jobs_written_def job_status_def)
  then obtain j2 where job2: "researchJob db2 jid = Some j2"
    by (auto simp: job_status_def)
  have co2: "company db2 ?cid = Some (co\<lparr>Company.status := CompanyStatus.RESEARCHING\<rparr>)"
    using frame by (simp add: only_jobs_written_def)
  have res2: "researchResult db2 = researchResult db"
    using frame by (simp add: only_jobs_written_def)
  show ?thesis
    using res2 upserted_cong [OF res2, of env ?cid "finalScores intel"]
    by (simp add: executeResearch_guarded [OF load enter] tryBlock_def stages r2
          saveAndComplete_cases [OF job2 co2] persist marked_completed_def)
qed

lemma guarded_run_double_fault:
  assumes load: "db_error env LoadJob = None" "researchJob db jid = Some job"
    "company db (ResearchJob.companyId job) = Some co"
    and enter: "db_error env MarkRunning = None" "db_error env MarkResearching = None"
    and stages_ok: "collaborator_results env co
        (initial_intel env (ResearchJob.companyId job) co) = Inr intel"
    and upsert: "db_error env UpsertResult = Some m"
    and mark: "db_error env MarkJobFailed = Some m'"
  shows "fst (executeResearch env jid db) = Inl m'
       \<and> job_status jid (snd (executeResearch env jid db)) = Some JobStatus.RUNNING"
proof -
  let ?cid = "ResearchJob.companyId job"
  let ?db1 = "db\<lparr>researchJob := (researchJob db)
                   (jid \<mapsto> job\<lparr>ResearchJob.status := JobStatus.RUNNING,
                              startedAt := Some (clock env)\<rparr>),
                 company := (company db)
                   (?cid \<mapsto> co\<lparr>Company.status := CompanyStatus.RESEARCHING\<rparr>)\<rparr>"
  let ?intel0 = "initial_intel env ?cid co"
  obtain r2 db2 where stages: "runStages env jid co ?intel0 ?db1 = (r2, db2)"
    by (cases "runStages env jid co ?intel0 ?db1")
  have r2: "r2 = Inr intel"
    using runStages_frame(3) [of env jid co ?intel0 ?db1] stages stages_ok by simp
  have frame: "only_jobs_written ?db1 db2"
    using runStages_frame(2) [of ?db1 env jid co ?intel0] stages by simp
  have st2: "job_status jid db2 = Some JobStatus.RUNNING"
    using frame by (simp add: only_jobs_written_def job_status_def)
  then obtain j2 where job2: "researchJob db2 jid = Some j2"
    by (auto simp: job_status_def)
  have co2: "company db2 ?cid = Some (co\<lparr>Company.status := CompanyStatus.RESEARCHING\<rparr>)"
    using frame by (simp add: only_jobs_written_def)
  have "executeResearch env jid db = catchBlock env jid ?cid m db2"
    by (simp add: executeResearch_guarded [OF load enter] tryBlock_def stages r2
          saveAndComplete_cases [OF job2 co2] upsert)
  also have "\<dots> = (Inl m', db2)"
    by (simp add: catchBlock_def attempt_simps mark)
  finally show ?thesis using st2 by simp
qed

section \<open>Concrete runs\<close>

lemma calm_db_error [simp]: "db_error calm_env c = None"
  by (simp add: calm_env_def)

lemma social_throws_db_error [simp]: "db_error social_throws_env c = None"
  by (simp add: social_throws_env_def calm_env_def)

lemma running_rejected_db_error [simp]:
  "db_error running_rejected_env MarkRunning = Some ''database unavailable''"
  "db_error running_rejected_env LoadJob = None"
  by (simp_all add: running_rejected_env_def calm_env_def)

lemma double_fault_db_error [simp]:
  "db_error double_fault_env LoadJob = None"
  "db_error double_fault_env MarkRunning = None"
  "db_error double_fault_env MarkResearching = None"
  "db_error double_fault_env UpsertResult = Some ''upsert failed''"
  "db_error double_fault_env MarkJobFailed = Some ''database unavailable''"
  by (simp_all add: double_fault_env_def calm_env_def)

lemma queued_db_rows [simp]:
  "researchJob queued_db ''j1'' = Some job1"
  "company queued_db ''c1'' = Some acme"
  "researchResult queued_db = Map.empty"
  "evolutionLog queued_db = []"
  "sourceConfig queued_db = []"
  by (simp_all add: queued_db_def empty_db_def)

lemma job1_company [simp]: "ResearchJob.companyId job1 = ''c1''"
  by (simp add: job1_def)

lemma job1_status [simp]: "ResearchJob.status job1 = JobStatus.QUEUED"
  by (simp add: job1_def)

lemma acme_status [simp]: "Company.status acme = CompanyStatus.QUEUED"
  by (simp add: acme_def)

lemmas call_defs = collaborator_results_def website_call_def social_call_def news_call_def
  business_call_def truthy_def initial_intel_def

lemma calm_results:
  "collaborator_results calm_env acme (initial_intel calm_env ''c1'' acme) =
     Inr (example_intel\<lparr>researchedAt := 1000\<rparr>)"
  by (simp add: call_defs calm_env_def acme_def example_intel_def)

lemma social_throws_results:
  "collaborator_results social_throws_env acme (initial_intel social_throws_env ''c1'' acme) =
     Inl ''search failed''"
  by (simp add: call_defs social_throws_env_def calm_env_def acme_def)

lemma double_fault_results:
  "collaborator_results double_fault_env acme (initial_intel double_fault_env ''c1'' acme) =
     Inr (example_intel\<lparr>researchedAt := 1000\<rparr>)"
  by (simp add: call_defs double_fault_env_def calm_env_def acme_def example_intel_def)

lemma example_final_completeness:
  "ComprehensiveIntelligence.completenessScore (finalScores (example_intel\<lparr>researchedAt := 1000\<rparr>)) = 85"
  by (simp add: finalScores_def Let_def example_intel_def calculateCompleteness_def weights_def
        has_length_def website_emails_def website_phones_def)



text \<open>
  C3 (as amended). executeResearch records nothing with the Evolution Engine: whatever
  the collaborators return or throw and whichever database call rejects, a run leaves
  the evolution log and every reliability row as they were. Events and reliability
  updates are written only by logSourceSuccess, logSourceFailure and
  logResearchComplete, which the stage sequencer does not call.
\<close>

theorem executeResearch_records_nothing:
  "evolutionLog (snd (executeResearch env jid db)) = evolutionLog db
   \<and> sourceConfig (snd (executeResearch env jid db)) = sourceConfig db"
  using executeResearch_engine [of db env jid] by (simp add: engine_untouched_def)

theorem executeResearch_records_nothing_witness:
  "fst (executeResearch social_throws_env ''j1'' queued_db) = Inl ''search failed''
   \<and> evolutionLog (snd (executeResearch social_throws_env ''j1'' queued_db)) = []
   \<and> sourceConfig (snd (executeResearch social_throws_env ''j1'' queued_db)) = []"
  using executeResearch_records_nothing [of social_throws_env "''j1''" queued_db]
    guarded_run_outcomes [of social_throws_env queued_db "''j1''" job1 acme]
  by (simp add: social_throws_results)

text \<open>
  A run in which all four stages return and the job completes: the evolution log and
  the reliability table are still empty afterwards.
\<close>

theorem completed_run_logs_nothing_counterexample:
  "fst (executeResearch calm_env ''j1'' queued_db)
     = Inr (finalScores (example_intel\<lparr>researchedAt := 1000\<rparr>))
   \<and> job_status ''j1'' (snd (executeResearch calm_env ''j1'' queued_db))
       = Some JobStatus.COMPLETED
   \<and> evolutionLog (snd (executeResearch calm_env ''j1'' queued_db)) = []
   \<and> sourceConfig (snd (executeResearch calm_env ''j1'' queued_db)) = []"
  using executeResearch_engine [of queued_db calm_env "''j1''"]
    guarded_run_outcomes [of calm_env queued_db "''j1''" job1 acme]
  by (auto simp: calm_results engine_untouched_def marked_completed_def job_status_def
        split: option.splits)

text \<open>
  C7 (as amended). An exception of the job lookup (the query rejects, or the job is
  not found), of the RUNNING or RESEARCHING update, or of reading a missing company
  row, all before the guarded block, propagates to the caller and nothing is marked
  Failed. Inside the guarded block, provided the two failure-marking updates succeed:
  when a stage throws, or the upsert or one of the two completion updates rejects, the
  job is marked Failed with the captured error message, the company is marked Failed
  and the exception is re-thrown; no intelligence record is written when a stage throws
  or the upsert rejects, and the record written before a completion update rejects is
  the complete fused record. A run in which all stages complete and the three
  persistence steps succeed writes exactly one intelligence record, by upsert, returns
  the fused record and marks job and company Completed.
\<close>

theorem executeResearch_outcomes:
  "(\<forall>m. db_error env LoadJob = Some m \<longrightarrow>
      executeResearch env jid db = (Inl m, db))
   \<and> (db_error env LoadJob = None \<and> researchJob db jid = None \<longrightarrow>
      executeResearch env jid db = (Inl (''Job not found: '' @ jid), db))
   \<and> (\<forall>job m. db_error env LoadJob = None \<and> researchJob db jid = Some job
        \<and> db_error env MarkRunning = Some m \<longrightarrow>
      executeResearch env jid db = (Inl m, db))
   \<and> (\<forall>job. db_error env LoadJob = None \<and> researchJob db jid = Some job
        \<and> db_error env MarkRunning = None
        \<and> company db (ResearchJob.companyId job) = None \<longrightarrow>
      fst (executeResearch env jid db) = Inl null_company_error
      \<and> job_status jid (snd (executeResearch env jid db)) = Some JobStatus.RUNNING
      \<and> company (snd (executeResearch env jid db)) = company db
      \<and> researchResult (snd (executeResearch env jid db)) = researchResult db)
   \<and> (\<forall>job co m. db_error env LoadJob = None \<and> researchJob db jid = Some job
        \<and> company db (ResearchJob.companyId job) = Some co
        \<and> db_error env MarkRunning = None \<and> db_error env MarkResearching = Some m \<longrightarrow>
      fst (executeResearch env jid db) = Inl m
      \<and> job_status jid (snd (executeResearch env jid db)) = Some JobStatus.RUNNING
      \<and> company (snd (executeResearch env jid db)) = company db)
   \<and> (\<forall>job co intel. db_error env LoadJob = None \<and> researchJob db jid = Some job
        \<and> company db (ResearchJob.companyId job) = Some co
        \<and> db_error env MarkRunning = None \<and> db_error env MarkResearching = None
        \<and> collaborator_results env co (initial_intel env (ResearchJob.companyId job) co)
            = Inr intel
        \<and> db_error env UpsertResult = None \<and> db_error env MarkJobCompleted = None
        \<and> db_error env MarkCompanyCompleted = None \<longrightarrow>
      fst (executeResearch env jid db) = Inr (finalScores intel)
      \<and> marked_completed jid (ResearchJob.companyId job) (snd (executeResearch env jid db))
      \<and> researchResult (snd (executeResearch env jid db)) =
          (researchResult db)(ResearchJob.companyId job \<mapsto>
             upserted env (ResearchJob.companyId job) (finalScores intel) db))
   \<and> (\<forall>job co. db_error env LoadJob = None \<and> researchJob db jid = Some job
        \<and> company db (ResearchJob.companyId job) = Some co
        \<and> db_error env MarkRunning = None \<and> db_error env MarkResearching = None
        \<and> db_error env MarkJobFailed = None \<and> db_error env MarkCompanyFailed = None \<longrightarrow>
        (case collaborator_results env co (initial_intel env (ResearchJob.companyId job) co) of
           Inl e \<Rightarrow>
             fst (executeResearch env jid db) = Inl e
             \<and> marked_failed jid (ResearchJob.companyId job) e (snd (executeResearch env jid db))
             \<and> researchResult (snd (executeResearch env jid db)) = researchResult db
         | Inr intel \<Rightarrow>
            (case db_error env UpsertResult of
               Some m \<Rightarrow>
                 fst (executeResearch env jid db) = Inl m
                 \<and> marked_failed jid (ResearchJob.companyId job) m
                     (snd (executeResearch env jid db))
                 \<and> researchResult (snd (executeResearch env jid db)) = researchResult db
             | None \<Rightarrow>
                 researchResult (snd (executeResearch env jid db)) =
                   (researchResult db)(ResearchJob.companyId job \<mapsto>
                      upserted env (ResearchJob.companyId job) (finalScores intel) db)
                 \<and> (case db_error env MarkJobCompleted of
                       Some m \<Rightarrow>
                         fst (executeResearch env jid db) = Inl m
                         \<and> marked_failed jid (ResearchJob.companyId job) m
                             (snd (executeResearch env jid db))
                     | None \<Rightarrow>
                    (case db_error env MarkCompanyCompleted of
                       Some m \<Rightarrow>
                         fst (executeResearch env jid db) = Inl m
                         \<and> marked_failed jid (ResearchJob.companyId job) m
                             (snd (executeResearch env jid db))
                     | None \<Rightarrow>
                         fst (executeResearch env jid db) = Inr (finalScores intel)
                         \<and> marked_completed jid (ResearchJob.companyId job)
                             (snd (executeResearch env jid db)))))))"
proof (intro conjI)
  show "\<forall>m. db_error env LoadJob = Some m \<longrightarrow>
      executeResearch env jid db = (Inl m, db)"
    by (simp add: executeResearch_lookup_rejected)
  show "db_error env LoadJob = None \<and> researchJob db jid = None \<longrightarrow>
      executeResearch env jid db = (Inl (''Job not found: '' @ jid), db)"
    by (simp add: executeResearch_job_missing)
  show "\<forall>job m. db_error env LoadJob = None \<and> researchJob db jid = Some job
        \<and> db_error env MarkRunning = Some m \<longrightarrow>
      executeResearch env jid db = (Inl m, db)"
    by (blast intro: executeResearch_running_rejected)
  show "\<forall>job. db_error env LoadJob = None \<and> researchJob db jid = Some job
        \<and> db_error env MarkRunning = None
        \<and> company db (ResearchJob.companyId job) = None \<longrightarrow>
      fst (executeResearch env jid db) = Inl null_company_error
      \<and> job_status jid (snd (executeResearch env jid db)) = Some JobStatus.RUNNING
      \<and> company (snd (executeResearch env jid db)) = company db
      \<and> researchResult (snd (executeResearch env jid db)) = researchResult db"
    using executeResearch_company_missing [of env db jid] by blast
  show "\<forall>job co m. db_error env LoadJob = None \<and> researchJob db jid = Some job
        \<and> company db (ResearchJob.companyId job) = Some co
        \<and> db_error env MarkRunning = None \<and> db_error env MarkResearching = Some m \<longrightarrow>
      fst (executeResearch env jid db) = Inl m
      \<and> job_status jid (snd (executeResearch env jid db)) = Some JobStatus.RUNNING
      \<and> company (snd (executeResearch env jid db)) = company db"
    using executeResearch_researching_rejected [of env db jid] by blast
  show "\<forall>job co intel. db_error env LoadJob = None \<and> researchJob db jid = Some job
        \<and> company db (ResearchJob.companyId job) = Some co
        \<and> db_error env MarkRunning = None \<and> db_error env MarkResearching = None
        \<and> collaborator_results env co (initial_intel env (ResearchJob.companyId job) co)
            = Inr intel
        \<and> db_error env UpsertResult = None \<and> db_error env MarkJobCompleted = None
        \<and> db_error env MarkCompanyCompleted = None \<longrightarrow>
      fst (executeResearch env jid db) = Inr (finalScores intel)
      \<and> marked_completed jid (ResearchJob.companyId job) (snd (executeResearch env jid db))
      \<and> researchResult (snd (executeResearch env jid db)) =
          (researchResult db)(ResearchJob.companyId job \<mapsto>
             upserted env (ResearchJob.companyId job) (finalScores intel) db)"
    using guarded_run_completes [of env db jid] by blast
next
  show "\<forall>job co. db_error env LoadJob = None \<and> researchJob db jid = Some job
        \<and> company db (ResearchJob.companyId job) = Some co
        \<and> db_error env MarkRunning = None \<and> db_error env MarkResearching = None
        \<and> db_error env MarkJobFailed = None \<and> db_error env MarkCompanyFailed = None \<longrightarrow>
        (case collaborator_results env co (initial_intel env (ResearchJob.companyId job) co) of
           Inl e \<Rightarrow>
             fst (executeResearch env jid db) = Inl e
             \<and> marked_failed jid (ResearchJob.companyId job) e (snd (executeResearch env jid db))
             \<and> researchResult (snd (executeResearch env jid db)) = researchResult db
         | Inr intel \<Rightarrow>
            (case db_error env UpsertResult of
               Some m \<Rightarrow>
                 fst (executeResearch env jid db) = Inl m
                 \<and> marked_failed jid (ResearchJob.companyId job) m
                     (snd (executeResearch env jid db))
                 \<and> researchResult (snd (executeResearch env jid db)) = researchResult db
             | None \<Rightarrow>
                 researchResult (snd (executeResearch env jid db)) =
                   (researchResult db)(ResearchJob.companyId job \<mapsto>
                      upserted env (ResearchJob.companyId job) (finalScores intel) db)
                 \<and> (case db_error env MarkJobCompleted of
                       Some m \<Rightarrow>
                         fst (executeResearch env jid db) = Inl m
                         \<and> marked_failed jid (ResearchJob.companyId job) m
                             (snd (executeResearch env jid db))
                     | None \<Rightarrow>
                    (case db_error env MarkCompanyCompleted of
                       Some m \<Rightarrow>
                         fst (executeResearch env jid db) = Inl m
                         \<and> marked_failed jid (ResearchJob.companyId job) m
                             (snd (executeResearch env jid db))
                     | None \<Rightarrow>
                         fst (executeResearch env jid db) = Inr (finalScores intel)
                         \<and> marked_completed jid (ResearchJob.companyId job)
                             (snd (executeResearch env jid db))))))"
    using guarded_run_outcomes [of env db jid] by blast
qed

text \<open>A job id that the job table does not hold.\<close>

theorem executeResearch_outcomes_witness:
  "researchJob queued_db ''j9'' = None
   \<and> executeResearch calm_env ''j9'' queued_db = (Inl ''Job not found: j9'', queued_db)
   \<and> db_error calm_env LoadJob = None \<and> researchJob queued_db ''j1'' = Some job1
   \<and> company queued_db (ResearchJob.companyId job1) = Some acme
   \<and> marked_completed ''j1'' ''c1'' (snd (executeResearch calm_env ''j1'' queued_db))
   \<and> map_option ResearchResult.completenessScore
        (researchResult (snd (executeResearch calm_env ''j1'' queued_db)) ''c1'') = Some 85
   \<and> fst (executeResearch social_throws_env ''j1'' queued_db) = Inl ''search failed''
   \<and> marked_failed ''j1'' ''c1'' ''search failed''
        (snd (executeResearch social_throws_env ''j1'' queued_db))
   \<and> researchResult (snd (executeResearch social_throws_env ''j1'' queued_db)) ''c1'' = None"
proof -
  have missing: "researchJob queued_db ''j9'' = None"
    by (simp add: queued_db_def empty_db_def)
  have a: "executeResearch calm_env ''j9'' queued_db = (Inl ''Job not found: j9'', queued_db)"
    using executeResearch_outcomes [of calm_env "''j9''" queued_db] missing by simp
  have b: "fst (executeResearch calm_env ''j1'' queued_db)
             = Inr (finalScores (example_intel\<lparr>researchedAt := 1000\<rparr>))
       \<and> marked_completed ''j1'' ''c1'' (snd (executeResearch calm_env ''j1'' queued_db))
       \<and> researchResult (snd (executeResearch calm_env ''j1'' queued_db)) =
          (researchResult queued_db)(''c1'' \<mapsto>
             upserted calm_env ''c1'' (finalScores (example_intel\<lparr>researchedAt := 1000\<rparr>))
               queued_db)"
    using executeResearch_outcomes [of calm_env "''j1''" queued_db] calm_results
    by simp
  have c: "fst (executeResearch social_throws_env ''j1'' queued_db) = Inl ''search failed''
       \<and> marked_failed ''j1'' ''c1'' ''search failed''
            (snd (executeResearch social_throws_env ''j1'' queued_db))
       \<and> researchResult (snd (executeResearch social_throws_env ''j1'' queued_db))
           = researchResult queued_db"
    using executeResearch_outcomes [of social_throws_env "''j1''" queued_db]
      social_throws_results
    by simp
  show ?thesis
    using missing a b c
    by (simp add: upserted_def result_create_def example_final_completeness)
qed

text \<open>
  Two runs whose exception escapes a persistence step and leaves nothing marked
  Failed. In the first the update of the job to RUNNING rejects: job and company stay
  QUEUED. In the second all stages return, the upsert rejects and the update of the job
  to FAILED rejects too: the caller sees the second error and the job stays RUNNING.
\<close>

theorem unmarked_failures_counterexample:
  "fst (executeResearch running_rejected_env ''j1'' queued_db) = Inl ''database unavailable''
   \<and> job_status ''j1'' (snd (executeResearch running_rejected_env ''j1'' queued_db))
       = Some JobStatus.QUEUED
   \<and> company_status ''c1'' (snd (executeResearch running_rejected_env ''j1'' queued_db))
       = Some CompanyStatus.QUEUED
   \<and> fst (executeResearch double_fault_env ''j1'' queued_db) = Inl ''database unavailable''
   \<and> job_status ''j1'' (snd (executeResearch double_fault_env ''j1'' queued_db))
       = Some JobStatus.RUNNING"
  using executeResearch_running_rejected
    [of running_rejected_env queued_db "''j1''" job1 "''database unavailable''"]
    guarded_run_double_fault
    [of double_fault_env queued_db "''j1''" job1 acme "example_intel\<lparr>researchedAt := 1000\<rparr>"
       "''upsert failed''" "''database unavailable''"]
  by (simp add: job_status_def company_status_def double_fault_results)

end
